theory Spec2Isabelle
  imports Complex_Main "HOL-Library.Word" "HOL-Library.Sublist"
begin

section \<open>The record store: BSON documents and the \<open>file_infos\<close> validator\<close>

text \<open>
  \<^verbatim>\<open>backend/mongo/init-mongo.js\<close> creates the collection \<open>file_infos\<close> with a
  \<open>$jsonSchema\<close> validator and a unique index on \<open>filename\<close>. The schema is data, so it
  is embedded as a value of a schema datatype and read by an interpreter of the keywords
  the script uses: \<open>bsonType\<close>, \<open>required\<close>, \<open>properties\<close>, \<open>items\<close>, \<open>minimum\<close>,
  \<open>maximum\<close> and \<open>enum\<close> (\<open>title\<close> and \<open>description\<close> constrain nothing).

  A BSON \<open>int\<close> is a 32-bit signed integer and a \<open>long\<close> a 64-bit one. A \<open>double\<close> is
  represented by the real number it denotes: the schema only compares doubles with
  bounds, and on finite doubles that comparison is the comparison of their values.
\<close>

datatype bson_type = TDouble | TString | TObject | TArray | TObjectId | TBool | TNull | TInt | TLong

datatype bson =
    BDouble real
  | BString string
  | BObject "(string \<times> bson) list"
  | BArray "bson list"
  | BObjectId string
  | BBool bool
  | BNull
  | BInt "32 word"
  | BLong "64 word"

datatype schema = Schema
  (bsonType: "bson_type option")
  (required: "string list")
  (properties: "(string \<times> schema) list")
  (items: "schema option")
  (minimum: "real option")
  (maximum: "real option")
  (enum_values: "bson list option")

fun type_of_bson :: "bson \<Rightarrow> bson_type" where
  "type_of_bson (BDouble _) = TDouble"
| "type_of_bson (BString _) = TString"
| "type_of_bson (BObject _) = TObject"
| "type_of_bson (BArray _) = TArray"
| "type_of_bson (BObjectId _) = TObjectId"
| "type_of_bson (BBool _) = TBool"
| "type_of_bson BNull = TNull"
| "type_of_bson (BInt _) = TInt"
| "type_of_bson (BLong _) = TLong"

fun numeric_value :: "bson \<Rightarrow> real option" where
  "numeric_value (BDouble x) = Some x"
| "numeric_value (BInt w) = Some (real_of_int (sint w))"
| "numeric_value (BLong w) = Some (real_of_int (sint w))"
| "numeric_value _ = None"

text \<open>
  A keyword constrains only the values it applies to: \<open>minimum\<close> and \<open>maximum\<close> numbers,
  \<open>required\<close> and \<open>properties\<close> objects, \<open>items\<close> arrays. A property that the document
  does not carry is not checked; only \<open>required\<close> asks for presence.
\<close>

fun validates :: "schema \<Rightarrow> bson \<Rightarrow> bool" where
  "validates (Schema ty req props its mn mx en) v =
     ((case ty of None \<Rightarrow> True | Some t \<Rightarrow> type_of_bson v = t)
      \<and> (case en of None \<Rightarrow> True | Some vs \<Rightarrow> v \<in> set vs)
      \<and> (case numeric_value v of
            None \<Rightarrow> True
          | Some x \<Rightarrow> (case mn of None \<Rightarrow> True | Some m \<Rightarrow> m \<le> x)
                    \<and> (case mx of None \<Rightarrow> True | Some m \<Rightarrow> x \<le> m))
      \<and> (case v of
            BObject fs \<Rightarrow>
              list_all (\<lambda>k. map_of fs k \<noteq> None) req
              \<and> list_all (\<lambda>(k, s). case map_of fs k of
                                       None \<Rightarrow> True
                                     | Some w \<Rightarrow> validates s w) props
          | BArray xs \<Rightarrow> (case its of None \<Rightarrow> True | Some s \<Rightarrow> list_all (validates s) xs)
          | _ \<Rightarrow> True))"

subsection \<open>The schema of \<open>file_infos\<close>\<close>

definition human_score_schema :: schema where
  "human_score_schema = Schema (Some TInt) [] [] None (Some 0) (Some 100) None"

definition sample_level_system_score_schema :: schema where
  "sample_level_system_score_schema = Schema (Some TDouble) [] [] None (Some 0) (Some 100) None"

definition segment_schema :: schema where
  "segment_schema =
     Schema (Some TObject) [''start'', ''end'', ''speaker'', ''confidence'']
       [(''start'', Schema (Some TDouble) [] [] None (Some 0) None None),
        (''end'', Schema (Some TDouble) [] [] None (Some 0) None None),
        (''speaker'', Schema (Some TString) [] [] None None None None),
        (''confidence'', Schema (Some TObject) [] [] None None None None)]
       None None None None"

definition diarization_result_schema :: schema where
  "diarization_result_schema = Schema (Some TArray) [] [] (Some segment_schema) None None None"

definition storage_type_schema :: schema where
  "storage_type_schema = Schema (Some TString) [] [] None None None (Some [BString ''PyAnnote''])"

definition nb_speakers_schema :: schema where
  "nb_speakers_schema = Schema (Some TInt) [] [] None (Some 1) (Some 100) None"

definition sample_level_confidences_schema :: schema where
  "sample_level_confidences_schema =
     Schema (Some TObject) [''score'', ''resolution'']
       [(''score'', Schema (Some TArray) [] []
                      (Some (Schema (Some TInt) [] [] None (Some 0) (Some 100) None))
                      None None None),
        (''resolution'', Schema (Some TDouble) [] [] None (Some 0) None None)]
       None None None None"

definition file_infos_schema :: schema where
  "file_infos_schema =
     Schema (Some TObject) [''storage_type'', ''filename'', ''gridfs_id'', ''nb_speakers'']
       [(''human_score'', human_score_schema),
        (''sample_level_system_score'', sample_level_system_score_schema),
        (''diarization_result'', diarization_result_schema),
        (''file_id'', Schema (Some TString) [] [] None None None None),
        (''storage_type'', storage_type_schema),
        (''filename'', Schema (Some TString) [] [] None None None None),
        (''gridfs_id'', Schema (Some TObjectId) [] [] None None None None),
        (''job_id'', Schema (Some TString) [] [] None None None None),
        (''nb_speakers'', nb_speakers_schema),
        (''sample_level_confidences'', sample_level_confidences_schema)]
       None None None None"

subsection \<open>Collections, unique indexes and inserts\<close>

datatype write_error = ValidationError | DuplicateKey

record collection =
  validator :: "schema option"
  unique_indexes :: "string list"
  documents :: "bson list"

definition createCollection :: "schema option \<Rightarrow> collection" where
  "createCollection v = \<lparr>validator = v, unique_indexes = [], documents = []\<rparr>"

text \<open>\<open>createIndex({k: 1}, {unique: true})\<close>, as the script calls it on a fresh collection.\<close>

definition createIndex :: "string \<Rightarrow> collection \<Rightarrow> collection" where
  "createIndex k c = c\<lparr>unique_indexes := unique_indexes c @ [k]\<rparr>"

definition file_infos_init :: collection where
  "file_infos_init = createIndex ''filename'' (createCollection (Some file_infos_schema))"

text \<open>The key a document has in the index on field \<open>k\<close>; a document without the field is
  indexed under null.\<close>

definition index_key :: "string \<Rightarrow> bson \<Rightarrow> bson" where
  "index_key k d =
     (case d of
        BObject fs \<Rightarrow> (case map_of fs k of None \<Rightarrow> BNull | Some v \<Rightarrow> v)
      | _ \<Rightarrow> BNull)"

definition passes_validator :: "collection \<Rightarrow> bson \<Rightarrow> bool" where
  "passes_validator c d = (case validator c of None \<Rightarrow> True | Some s \<Rightarrow> validates s d)"

definition duplicates_key :: "collection \<Rightarrow> bson \<Rightarrow> bool" where
  "duplicates_key c d =
     list_ex (\<lambda>k. list_ex (\<lambda>d'. index_key k d' = index_key k d) (documents c))
       (unique_indexes c)"

text \<open>
  Modelled from the spec: the write path of the document store, which is not part of the
  source files. A write is checked against the collection's validator first (a violation
  is a \<open>ValidationError\<close>), then against its unique indexes (a collision is a
  \<open>DuplicateKey\<close>); a rejected write leaves the collection as it was. The validator and
  the index are those the script declares.
\<close>

definition insertOne :: "collection \<Rightarrow> bson \<Rightarrow> write_error + collection" where
  "insertOne c d =
     (if \<not> passes_validator c d then Inl ValidationError
      else if duplicates_key c d then Inl DuplicateKey
      else Inr (c\<lparr>documents := documents c @ [d]\<rparr>))"

text \<open>A sequence of insert attempts; a rejected one changes nothing.\<close>

fun run_inserts :: "collection \<Rightarrow> bson list \<Rightarrow> collection" where
  "run_inserts c [] = c"
| "run_inserts c (d # ds) =
     (case insertOne c d of Inl _ \<Rightarrow> run_inserts c ds | Inr c' \<Rightarrow> run_inserts c' ds)"

text \<open>
  A diarization segment as it is stored in \<open>diarization_result\<close>: the four required
  fields, \<open>start\<close> and \<open>end\<close> doubles, \<open>speaker\<close> a string and \<open>confidence\<close> an object.
\<close>

record diarization_segment =
  seg_start :: real
  seg_end :: real
  speaker :: string
  confidence :: "(string \<times> bson) list"

definition segment_doc :: "diarization_segment \<Rightarrow> bson" where
  "segment_doc g =
     BObject [(''start'', BDouble (seg_start g)), (''end'', BDouble (seg_end g)),
              (''speaker'', BString (speaker g)), (''confidence'', BObject (confidence g))]"

definition filenames_unique :: "collection \<Rightarrow> bool" where
  "filenames_unique c = distinct (map (index_key ''filename'') (documents c))"

section \<open>The page script\<close>

text \<open>
  The script of the page reads its inputs from form controls and talks to the server
  with \<open>fetch\<close>. A handler is embedded as a function from the values of the controls it
  reads to what it does: the message it logs when it returns early, or the request it
  issues. The markup of the page is not part of the sources, so the controls' values are
  parameters.
\<close>

subsection \<open>Strings and numbers\<close>

text \<open>
  Strings are lists of 8-bit characters; white space and letter case are those of ASCII.
  A number that \<open>parseInt\<close> returns is \<open>NaN\<close> or an integer; the integer is kept exact
  (the script's numbers are doubles, which agree with it below \<open>2^53\<close>).
\<close>

datatype js_number = NaN | Number int

fun js_ge :: "js_number \<Rightarrow> js_number \<Rightarrow> bool" where
  "js_ge (Number a) (Number b) = (b \<le> a)"
| "js_ge _ _ = False"

definition is_space :: "char \<Rightarrow> bool" where
  "is_space c = (c \<in> set [CHR '' '', CHR 0x09, CHR 0x0A, CHR 0x0B, CHR 0x0C, CHR 0x0D])"

definition trim :: "string \<Rightarrow> string" where
  "trim s = rev (dropWhile is_space (rev (dropWhile is_space s)))"

definition toLowerCase :: "string \<Rightarrow> string" where
  "toLowerCase s =
     map (\<lambda>c. let n = (of_char c :: nat) in if 65 \<le> n \<and> n \<le> 90 then char_of (n + 32) else c) s"

definition endsWith :: "string \<Rightarrow> string \<Rightarrow> bool" where
  "endsWith s suf = (length suf \<le> length s \<and> drop (length s - length suf) s = suf)"

definition digit_value :: "char \<Rightarrow> nat option" where
  "digit_value c =
     (let n = (of_char c :: nat)
      in if 48 \<le> n \<and> n \<le> 57 then Some (n - 48)
         else if 97 \<le> n \<and> n \<le> 122 then Some (n - 87)
         else if 65 \<le> n \<and> n \<le> 90 then Some (n - 55)
         else None)"

definition is_digit :: "nat \<Rightarrow> char \<Rightarrow> bool" where
  "is_digit radix c = (case digit_value c of None \<Rightarrow> False | Some d \<Rightarrow> d < radix)"

fun digits_value :: "nat \<Rightarrow> nat \<Rightarrow> string \<Rightarrow> nat" where
  "digits_value radix acc [] = acc"
| "digits_value radix acc (c # cs) =
     digits_value radix (case digit_value c of None \<Rightarrow> acc | Some d \<Rightarrow> acc * radix + d) cs"

text \<open>
  \<open>parseInt(string)\<close> with no radix: leading white space is skipped, a sign is read, a
  prefix \<open>0x\<close> or \<open>0X\<close> selects radix 16, and the longest run of digits is the value;
  whatever follows is ignored, and no digit at all gives \<open>NaN\<close>.
\<close>

definition parseInt :: "string \<Rightarrow> js_number" where
  "parseInt str =
     (let s = dropWhile is_space str;
          negative = (case s of [] \<Rightarrow> False | c # _ \<Rightarrow> c = CHR ''-'');
          s1 = (case s of [] \<Rightarrow> s | c # r \<Rightarrow> if c = CHR ''+'' \<or> c = CHR ''-'' then r else s);
          hex = (take 2 s1 = ''0x'' \<or> take 2 s1 = ''0X'');
          radix = (if hex then 16 else 10);
          s2 = (if hex then drop 2 s1 else s1);
          z = takeWhile (is_digit radix) s2
      in if z = [] then NaN
         else Number ((if negative then - 1 else 1) * int (digits_value radix 0 z)))"

text \<open>The decimal numeral of a natural number, as string concatenation prints it.\<close>

fun decimal :: "nat \<Rightarrow> string" where
  "decimal n =
     (if n < 10 then [char_of (48 + n)] else decimal (n div 10) @ [char_of (48 + n mod 10)])"

declare decimal.simps [simp del]

subsection \<open>Requests and outcomes\<close>

text \<open>
  Of a selected file the script reads its \<open>name\<close> and its \<open>type\<close>. A request is its
  method, its path and the parameters it carries (query parameters or form fields). A
  handler either returns early after logging a message, or issues a request.
\<close>

record audio_file =
  file_name :: string
  mime_type :: string

datatype param = PNumber js_number | PString string | PFile audio_file

record request =
  http_method :: string
  path :: string
  params :: "(string \<times> param) list"

datatype outcome = Returned string | Fetched request

subsection \<open>The three range-query forms\<close>

record range_controls =
  humanBorneInfSlider :: string
  humanBorneSupSlider :: string
  sampleLevelBorneInfSlider :: string
  sampleLevelBorneSupSlider :: string
  frameBorneInfSlider :: string
  frameBorneSupSlider :: string
  turnBorneInfSlider :: string
  turnBorneSupSlider :: string
  filenameSample :: string
  filenameTurn :: string

definition selectMeanForm_submit :: "range_controls \<Rightarrow> outcome" where
  "selectMeanForm_submit ui =
     (let minValueHuman = parseInt (humanBorneInfSlider ui);
          maxValueHuman = parseInt (humanBorneSupSlider ui)
      in if js_ge minValueHuman maxValueHuman
         then Returned ''The lower human score bound must be less than the upper bound.''
         else
           (let minValueSample = parseInt (sampleLevelBorneInfSlider ui);
                maxValueSample = parseInt (sampleLevelBorneSupSlider ui)
            in if js_ge minValueSample maxValueSample
               then Returned ''The lower sample score bound must be less than the upper bound.''
               else Fetched
                 \<lparr>http_method = ''GET'', path = ''/get_filenames_by_mean_scores'',
                  params = [(''human_score_min'', PNumber minValueHuman),
                            (''human_score_max'', PNumber maxValueHuman),
                            (''sample_score_min'', PNumber minValueSample),
                            (''sample_score_max'', PNumber maxValueSample)]\<rparr>))"

definition selectSampleLevelForm_submit :: "range_controls \<Rightarrow> outcome" where
  "selectSampleLevelForm_submit ui =
     (let minValueFrame = parseInt (frameBorneInfSlider ui);
          maxValueFrame = parseInt (frameBorneSupSlider ui)
      in if js_ge minValueFrame maxValueFrame
         then Returned ''The lower frame score bound must be less than the upper bound.''
         else
           (let filename = trim (filenameSample ui)
            in if filename = [] then Returned ''Please choose a file.''
               else Fetched
                 \<lparr>http_method = ''GET'', path = ''/get_sample_level_confidences_by_filename'',
                  params = [(''min_score'', PNumber minValueFrame),
                            (''max_score'', PNumber maxValueFrame),
                            (''filename'', PString filename)]\<rparr>))"

definition selectTurnLevelForm_submit :: "range_controls \<Rightarrow> outcome" where
  "selectTurnLevelForm_submit ui =
     (let minValueTurn = parseInt (turnBorneInfSlider ui);
          maxValueTurn = parseInt (turnBorneSupSlider ui)
      in if js_ge minValueTurn maxValueTurn
         then Returned ''The lower turn score bound must be less than the upper bound.''
         else
           (let filename = trim (filenameTurn ui)
            in if filename = [] then Returned ''Please choose a file.''
               else Fetched
                 \<lparr>http_method = ''GET'', path = ''/get_turn_level_confidences_by_filename'',
                  params = [(''min_score'', PNumber minValueTurn),
                            (''max_score'', PNumber maxValueTurn),
                            (''filename'', PString filename)]\<rparr>))"

subsection \<open>The upload form\<close>

text \<open>
  The controls the upload handler reads. The file input holds at most the one file the
  handler looks at (\<open>files[0]\<close>); clearing the input's value leaves it without a file.
\<close>

record upload_controls =
  audio :: "audio_file option"
  filenameUpload :: string
  storageType :: string
  nbSpeakers :: string

definition resetFileInputFields :: "upload_controls \<Rightarrow> upload_controls" where
  "resetFileInputFields ui = ui\<lparr>audio := None, filenameUpload := []\<rparr>"

text \<open>
  The handler returns the controls as it leaves them and what it did. After a request
  it resets the file fields whatever the response is.
\<close>

definition uploadForm_submit :: "nat \<Rightarrow> upload_controls \<Rightarrow> upload_controls \<times> outcome" where
  "uploadForm_submit numberOfDocuments ui =
     (if nbSpeakers ui = [] then (ui, Returned ''Please select a number of speakers.'')
      else case audio ui of
        None \<Rightarrow> (ui, Returned ''Please select a file.'')
      | Some audioFile \<Rightarrow>
          (let contentType = mime_type audioFile;
               mimeOk = (contentType = ''audio/wav'' \<or> contentType = ''audio/x-wav'');
               extensionOk = endsWith (toLowerCase (file_name audioFile)) ''.wav''
           in if \<not> mimeOk \<or> \<not> extensionOk
              then (resetFileInputFields ui, Returned ''The file must be a WAV file (.wav).'')
              else
                (let filename = trim (filenameUpload ui)
                 in if filename = [] then (ui, Returned ''Please enter a filename.'')
                    else if storageType ui = []
                    then (ui, Returned ''Please select a storage type.'')
                    else
                      (resetFileInputFields ui,
                       Fetched
                         \<lparr>http_method = ''POST'', path = ''/upload'',
                          params = [(''file'', PFile audioFile),
                                    (''filename'', PString filename),
                                    (''storage_type'', PString (storageType ui)),
                                    (''file_id'', PString (''file-'' @ decimal (numberOfDocuments + 1))),
                                    (''content_type'', PString contentType),
                                    (''nb_speakers'', PString (nbSpeakers ui))]\<rparr>))))"

subsection \<open>The filename dropdowns and the deletion form\<close>

text \<open>
  The seven dropdowns that list the registered filenames. The page's selects are a map
  from element id to the values of the select's options, in order.
\<close>

definition listIds :: "string list" where
  "listIds = [''filenameLists'', ''filenameSVG'', ''filenameDiarisation'', ''filenameListening'',
              ''filenameDeletion'', ''filenameSample'', ''filenameTurn'']"

type_synonym selects = "string \<rightharpoonup> string list"

datatype js_error = ReferenceError string | TypeError string

text \<open>The loop of \<open>deleteOptionByValue\<close>: the index of the first option with the value.\<close>

fun find_option :: "nat \<Rightarrow> string list \<Rightarrow> string \<Rightarrow> nat option" where
  "find_option i [] valeur = None"
| "find_option i (v # vs) valeur = (if v = valeur then Some i else find_option (Suc i) vs valeur)"

definition remove_at :: "nat \<Rightarrow> 'a list \<Rightarrow> 'a list" where
  "remove_at i xs = take i xs @ drop (Suc i) xs"

text \<open>
  Both log lines of \<open>deleteOptionByValue\<close> interpolate the identifier \<open>value\<close>. The
  function's parameter is named \<open>valeur\<close>, and the script declares no \<open>value\<close>, so the
  identifier resolves only when the page itself provides a global of that name;
  \<open>value_bound\<close> says whether it does. Reading an unresolvable identifier throws a
  \<open>ReferenceError\<close>.
\<close>

definition log_value :: "bool \<Rightarrow> js_error option" where
  "log_value value_bound = (if value_bound then None else Some (ReferenceError ''value''))"

text \<open>
  The function returns the selects as it leaves them and the exception that ends it, if
  any. The option is removed before the log line is evaluated.
\<close>

definition deleteOptionByValue ::
  "bool \<Rightarrow> selects \<Rightarrow> string \<Rightarrow> string \<Rightarrow> selects \<times> js_error option" where
  "deleteOptionByValue value_bound page listId valeur =
     (case page listId of
        None \<Rightarrow> (page, Some (TypeError ''dropdownList is null''))
      | Some opts \<Rightarrow>
          (case find_option 0 opts valeur of
             Some i \<Rightarrow> (page(listId \<mapsto> remove_at i opts), log_value value_bound)
           | None \<Rightarrow> (page, log_value value_bound)))"

text \<open>
  \<open>cleanData\<close> walks \<open>listIds\<close> inside a \<open>try\<close>: an exception ends the walk and is
  caught and logged, so the lists after the failing one are not visited.
\<close>

fun cleanData_loop :: "bool \<Rightarrow> selects \<Rightarrow> string list \<Rightarrow> string \<Rightarrow> selects \<times> js_error option" where
  "cleanData_loop value_bound page [] valeur = (page, None)"
| "cleanData_loop value_bound page (listId # ids) valeur =
     (case deleteOptionByValue value_bound page listId valeur of
        (page', Some e) \<Rightarrow> (page', Some e)
      | (page', None) \<Rightarrow> cleanData_loop value_bound page' ids valeur)"

definition cleanData :: "bool \<Rightarrow> selects \<Rightarrow> string \<Rightarrow> selects \<times> js_error option" where
  "cleanData value_bound page valeur = cleanData_loop value_bound page listIds valeur"

text \<open>
  The deletion form: the filename is the value of the \<open>filenameDeletion\<close> select; with
  none chosen nothing is sent. \<open>response_ok\<close> is the server's answer to \<open>/delete\<close>; the
  dropdowns are cleaned only when the deletion succeeded.
\<close>

definition deletionForm_submit :: "bool \<Rightarrow> selects \<Rightarrow> string \<Rightarrow> bool \<Rightarrow> selects \<times> outcome" where
  "deletionForm_submit value_bound page filename response_ok =
     (if filename = [] then (page, Returned ''Please enter a filename.'')
      else
        (if response_ok then fst (cleanData value_bound page filename) else page,
         Fetched \<lparr>http_method = ''POST'', path = ''/delete'',
                  params = [(''filename'', PString filename)]\<rparr>))"

section \<open>The record store of the query engine\<close>

text \<open>
  The server that answers the three range queries and the deletion is not part of the
  source files: the page script only issues the requests and prints the answers. The
  store and its operations below follow the specification's data model and its
  description of the query engine, with the specification's names.
\<close>

record sample_level_confidences =
  scores :: "int list"
  resolution :: real

record diarized_file_record =
  filename :: string
  storageReference :: string
  storageKind :: string
  speakerCount :: int
  jobReference :: "string option"
  humanScore :: "int option"
  sampleLevelMeanScore :: "real option"
  sampleLevelConfidences :: "sample_level_confidences option"
  diarizationSegments :: "diarization_segment list option"

datatype query_error = NotFound

record mean_score_entry =
  entry_filename :: string
  entry_humanScore :: int
  entry_sampleLevelMeanScore :: real

text \<open>
  Modelled from the spec: the mean-score range query of the query engine (the server
  code is missing). It walks the store and keeps a record when its \<open>humanScore\<close> lies in
  \<open>[humanScoreMin, humanScoreMax]\<close> and its \<open>sampleLevelMeanScore\<close> in
  \<open>[sampleScoreMin, sampleScoreMax]\<close>; a record that lacks either score has no value
  to compare and is passed over. Each match is projected to
  \<open>{filename, humanScore, sampleLevelMeanScore}\<close>.
\<close>

fun mean_score_query ::
  "diarized_file_record list \<Rightarrow> real \<Rightarrow> real \<Rightarrow> real \<Rightarrow> real \<Rightarrow> mean_score_entry list" where
  "mean_score_query [] humanScoreMin humanScoreMax sampleScoreMin sampleScoreMax = []"
| "mean_score_query (r # rs) humanScoreMin humanScoreMax sampleScoreMin sampleScoreMax =
     (case (humanScore r, sampleLevelMeanScore r) of
        (Some h, Some s) \<Rightarrow>
          if humanScoreMin \<le> real_of_int h \<and> real_of_int h \<le> humanScoreMax
             \<and> sampleScoreMin \<le> s \<and> s \<le> sampleScoreMax
          then \<lparr>entry_filename = filename r, entry_humanScore = h,
                entry_sampleLevelMeanScore = s\<rparr>
               # mean_score_query rs humanScoreMin humanScoreMax sampleScoreMin sampleScoreMax
          else mean_score_query rs humanScoreMin humanScoreMax sampleScoreMin sampleScoreMax
      | _ \<Rightarrow> mean_score_query rs humanScoreMin humanScoreMax sampleScoreMin sampleScoreMax)"

text \<open>
  Modelled from the spec: resolving the one record of a filename (the server code is
  missing); \<open>None\<close> is the specification's \<open>NotFound\<close>.
\<close>

definition find_record :: "diarized_file_record list \<Rightarrow> string \<Rightarrow> diarized_file_record option" where
  "find_record store name = find (\<lambda>r. filename r = name) store"

record sample_window =
  window_confidence :: int
  window_start :: real
  window_end :: real

text \<open>
  Modelled from the spec: the filter of the sample-level window query (the server code
  is missing). The sample at index \<open>i\<close> is kept when its score lies in
  \<open>[scoreMin, scoreMax]\<close>, and its time bounds are rebuilt from the resolution as
  \<open>i * resolution\<close> and \<open>(i + 1) * resolution\<close>. Times are real numbers: the rounding of
  the floating-point product is not modelled.
\<close>

fun sample_windows :: "nat \<Rightarrow> real \<Rightarrow> real \<Rightarrow> real \<Rightarrow> int list \<Rightarrow> sample_window list" where
  "sample_windows i res scoreMin scoreMax [] = []"
| "sample_windows i res scoreMin scoreMax (s # ss) =
     (if scoreMin \<le> real_of_int s \<and> real_of_int s \<le> scoreMax
      then \<lparr>window_confidence = s, window_start = real i * res,
            window_end = real (i + 1) * res\<rparr>
           # sample_windows (Suc i) res scoreMin scoreMax ss
      else sample_windows (Suc i) res scoreMin scoreMax ss)"

text \<open>
  Modelled from the spec: the sample-level confidence window query (the server code is
  missing). An unknown filename fails with \<open>NotFound\<close>. The specification does not say
  what a record without \<open>sampleLevelConfidences\<close> answers; here it has no match.
\<close>

definition sample_level_query ::
  "diarized_file_record list \<Rightarrow> string \<Rightarrow> real \<Rightarrow> real \<Rightarrow> query_error + sample_window list" where
  "sample_level_query store name scoreMin scoreMax =
     (case find_record store name of
        None \<Rightarrow> Inl NotFound
      | Some r \<Rightarrow>
          (case sampleLevelConfidences r of
             None \<Rightarrow> Inr []
           | Some c \<Rightarrow> Inr (sample_windows 0 (resolution c) scoreMin scoreMax (scores c))))"

record turn_entry =
  turn_start :: real
  turn_end :: real
  turn_speaker :: string
  speakerConfidence :: real

text \<open>
  Modelled from the spec: the filter of the turn-level window query (the server code is
  missing). The specification leaves the confidence payload of a segment unspecified and
  speaks of its confidence sub-score; \<open>sub\<close> is the reading of that sub-score from a
  segment, \<open>None\<close> when the segment has none. A segment is kept when its sub-score lies
  in \<open>[scoreMin, scoreMax]\<close>, and is answered as \<open>{start, end, speaker, speakerConfidence}\<close>.
\<close>

fun turn_windows ::
  "(diarization_segment \<Rightarrow> real option) \<Rightarrow> real \<Rightarrow> real \<Rightarrow> diarization_segment list
     \<Rightarrow> turn_entry list" where
  "turn_windows sub scoreMin scoreMax [] = []"
| "turn_windows sub scoreMin scoreMax (g # gs) =
     (case sub g of
        Some c \<Rightarrow>
          if scoreMin \<le> c \<and> c \<le> scoreMax
          then \<lparr>turn_start = seg_start g, turn_end = seg_end g, turn_speaker = speaker g,
                speakerConfidence = c\<rparr> # turn_windows sub scoreMin scoreMax gs
          else turn_windows sub scoreMin scoreMax gs
      | None \<Rightarrow> turn_windows sub scoreMin scoreMax gs)"

text \<open>
  Modelled from the spec: the turn-level confidence window query (the server code is
  missing). An unknown filename fails with \<open>NotFound\<close>; a record without
  \<open>diarizationSegments\<close> has no match.
\<close>

definition turn_level_query ::
  "(diarization_segment \<Rightarrow> real option) \<Rightarrow> diarized_file_record list \<Rightarrow> string \<Rightarrow> real \<Rightarrow> real
     \<Rightarrow> query_error + turn_entry list" where
  "turn_level_query sub store name scoreMin scoreMax =
     (case find_record store name of
        None \<Rightarrow> Inl NotFound
      | Some r \<Rightarrow>
          (case diarizationSegments r of
             None \<Rightarrow> Inr []
           | Some gs \<Rightarrow> Inr (turn_windows sub scoreMin scoreMax gs)))"

text \<open>
  Modelled from the spec: the store after a deletion that succeeded (the server code is
  missing): the record of that filename is gone.
\<close>

definition delete_record :: "diarized_file_record list \<Rightarrow> string \<Rightarrow> diarized_file_record list" where
  "delete_record store name = filter (\<lambda>r. filename r \<noteq> name) store"

section \<open>Properties of the \<open>file_infos\<close> validator and of inserts\<close>

subsection \<open>Reading the schema\<close>

lemma signed_real_ge: "(real_of_int a \<le> signed w) = (a \<le> sint w)"
proof -
  have "(signed w :: real) = real_of_int (sint w)" by simp
  then show ?thesis by (simp only: of_int_le_iff)
qed

lemma signed_real_le: "((signed w :: real) \<le> real_of_int a) = (sint w \<le> a)"
proof -
  have "(signed w :: real) = real_of_int (sint w)" by simp
  then show ?thesis by (simp only: of_int_le_iff)
qed

lemma signed_real_bounds:
  "(1 \<le> (signed w :: real)) = (1 \<le> sint w)"
  "(0 \<le> (signed w :: real)) = (0 \<le> sint w)"
  "((signed w :: real) \<le> 100) = (sint w \<le> 100)"
  using signed_real_ge [of 1 w] signed_real_ge [of 0 w] signed_real_le [of w 100] by simp_all

lemma validates_nb_speakers:
  "validates nb_speakers_schema v \<longleftrightarrow> (\<exists>w. v = BInt w \<and> 1 \<le> sint w \<and> sint w \<le> 100)"
  by (cases v) (auto simp: nb_speakers_schema_def signed_real_bounds)

lemma map_of_filter_key: "map_of (filter (\<lambda>kv. fst kv \<noteq> k) xs) k = None"
  by (induction xs) auto

lemma validates_with_nb_speakers:
  assumes "validates file_infos_schema (BObject ((''nb_speakers'', v0) # rest))"
  shows "validates file_infos_schema (BObject ((''nb_speakers'', v) # rest))
           \<longleftrightarrow> validates nb_speakers_schema v"
  using assms by (simp add: file_infos_schema_def)

lemma validates_without_nb_speakers:
  "\<not> validates file_infos_schema (BObject (filter (\<lambda>kv. fst kv \<noteq> ''nb_speakers'') rest))"
  by (simp add: file_infos_schema_def map_of_filter_key)

lemma validates_segment_doc:
  "validates segment_schema (segment_doc g) \<longleftrightarrow> 0 \<le> seg_start g \<and> 0 \<le> seg_end g"
  by (simp add: segment_schema_def segment_doc_def)

lemma validates_diarization_result:
  "validates diarization_result_schema (BArray (map segment_doc gs))
     \<longleftrightarrow> list_all (\<lambda>g. 0 \<le> seg_start g \<and> 0 \<le> seg_end g) gs"
  by (simp add: diarization_result_schema_def list_all_iff validates_segment_doc)

lemma validates_with_diarization_result:
  assumes "validates file_infos_schema (BObject rest)"
  shows "validates file_infos_schema (BObject ((''diarization_result'', v) # rest))
           \<longleftrightarrow> validates diarization_result_schema v"
  using assms by (simp add: file_infos_schema_def)

lemma validates_sample_level_confidences:
  assumes "validates sample_level_confidences_schema slc"
  shows "\<exists>fs r xs. slc = BObject fs
           \<and> map_of fs ''resolution'' = Some (BDouble r) \<and> 0 \<le> r
           \<and> map_of fs ''score'' = Some (BArray xs)
           \<and> (\<forall>x \<in> set xs. \<exists>w. x = BInt w \<and> 0 \<le> sint w \<and> sint w \<le> 100)"
proof (cases slc)
  case (BObject fs)
  from assms BObject obtain sc rs where
    sc: "map_of fs ''score'' = Some sc" and rs: "map_of fs ''resolution'' = Some rs"
    by (auto simp: sample_level_confidences_schema_def)
  from assms BObject sc rs have
    vsc: "validates (Schema (Some TArray) [] []
                      (Some (Schema (Some TInt) [] [] None (Some 0) (Some 100) None))
                      None None None) sc"
    and vrs: "validates (Schema (Some TDouble) [] [] None (Some 0) None None) rs"
    by (simp_all add: sample_level_confidences_schema_def)
  from vrs obtain r where r: "rs = BDouble r" "0 \<le> r"
    by (cases rs) auto
  from vsc obtain xs where xs: "sc = BArray xs"
    and all: "list_all (validates (Schema (Some TInt) [] [] None (Some 0) (Some 100) None)) xs"
    by (cases sc) auto
  have "\<exists>w. x = BInt w \<and> 0 \<le> sint w \<and> sint w \<le> 100" if "x \<in> set xs" for x
  proof -
    from all that have "validates (Schema (Some TInt) [] [] None (Some 0) (Some 100) None) x"
      by (simp add: list_all_iff)
    then show ?thesis by (cases x) (auto simp: signed_real_bounds)
  qed
  with BObject sc rs r xs show ?thesis by auto
qed (use assms in \<open>auto simp: sample_level_confidences_schema_def\<close>)

subsection \<open>Inserts into \<open>file_infos\<close>\<close>

lemma run_inserts_config:
  "validator (run_inserts c ds) = validator c
   \<and> unique_indexes (run_inserts c ds) = unique_indexes c"
  by (induction ds arbitrary: c) (auto simp: insertOne_def split: sum.splits if_splits)

lemma file_infos_init_config:
  "validator file_infos_init = Some file_infos_schema"
  "unique_indexes file_infos_init = [''filename'']"
  "documents file_infos_init = []"
  by (simp_all add: file_infos_init_def createIndex_def createCollection_def)

lemma reachable_config:
  "validator (run_inserts file_infos_init ds) = Some file_infos_schema"
  "unique_indexes (run_inserts file_infos_init ds) = [''filename'']"
  by (simp_all add: run_inserts_config file_infos_init_config)

lemma duplicates_key_filename:
  assumes "unique_indexes c = [''filename'']"
  shows "duplicates_key c d \<longleftrightarrow>
           index_key ''filename'' d \<in> index_key ''filename'' ` set (documents c)"
proof -
  have "duplicates_key c d \<longleftrightarrow>
          (\<exists>d' \<in> set (documents c). index_key ''filename'' d' = index_key ''filename'' d)"
    using assms by (simp add: duplicates_key_def list_ex_iff)
  also have "\<dots> \<longleftrightarrow> index_key ''filename'' d \<in> index_key ''filename'' ` set (documents c)"
    by (simp add: image_iff) metis
  finally show ?thesis .
qed

lemma insertOne_file_infos:
  assumes "validator c = Some file_infos_schema" "unique_indexes c = [''filename'']"
  shows "insertOne c d =
     (if \<not> validates file_infos_schema d then Inl ValidationError
      else if index_key ''filename'' d \<in> index_key ''filename'' ` set (documents c)
      then Inl DuplicateKey
      else Inr (c\<lparr>documents := documents c @ [d]\<rparr>))"
  using assms by (simp add: insertOne_def passes_validator_def duplicates_key_filename)

lemma index_key_nb_speakers:
  "index_key ''filename'' (BObject ((''nb_speakers'', v) # rest))
     = index_key ''filename'' (BObject rest)"
  by (simp add: index_key_def)

lemma run_inserts_documents_mono:
  "set (documents c) \<subseteq> set (documents (run_inserts c ds))"
proof (induction ds arbitrary: c)
  case Nil
  then show ?case by simp
next
  case (Cons d ds)
  show ?case
  proof (cases "insertOne c d")
    case (Inl e)
    then show ?thesis using Cons.IH [of c] by simp
  next
    case (Inr c')
    then have "set (documents c) \<subseteq> set (documents c')"
      by (auto simp: insertOne_def split: if_splits)
    then show ?thesis using Inr Cons.IH [of c'] by auto
  qed
qed

lemma insertOne_keeps_unique:
  assumes "unique_indexes c = [''filename'']" "filenames_unique c" "insertOne c d = Inr c'"
  shows "filenames_unique c'"
  using assms
  by (auto simp: insertOne_def filenames_unique_def duplicates_key_filename split: if_splits)

lemma run_inserts_keeps_unique:
  assumes "unique_indexes c = [''filename'']" "filenames_unique c"
  shows "filenames_unique (run_inserts c ds)"
  using assms
proof (induction ds arbitrary: c)
  case Nil
  then show ?case by simp
next
  case (Cons d ds)
  show ?case
  proof (cases "insertOne c d")
    case (Inl e)
    then show ?thesis using Cons by simp
  next
    case (Inr c')
    have u: "unique_indexes c' = [''filename'']"
      using Inr Cons.prems(1) by (auto simp: insertOne_def split: if_splits)
    have "filenames_unique c'"
      using insertOne_keeps_unique [OF Cons.prems Inr] .
    then show ?thesis using Inr Cons.IH [OF u] by simp
  qed
qed

lemma reachable_unique: "filenames_unique (run_inserts file_infos_init ds)"
  by (rule run_inserts_keeps_unique)
     (simp_all add: file_infos_init_config filenames_unique_def)

subsection \<open>The speaker count\<close>

text \<open>
  Claim C5. A record creation whose \<open>nb_speakers\<close> is an integer in \<open>[1, 100]\<close> passes
  the validator and succeeds; with any value outside that range, or with \<open>nb_speakers\<close>
  left out, the write is rejected with a \<open>ValidationError\<close>.

  The record is \<open>nb_speakers\<close> together with the other fields \<open>rest\<close>. The claim is about
  the speaker count, so the other fields are those of a record that is valid for some
  speaker count \<open>v0\<close>, and the filename is not yet in the collection \<open>c\<close>, which is any
  state of \<open>file_infos\<close> reached by inserts after the script has created it. An integer
  is a BSON \<open>int\<close>, the type the schema asks for; every other value, a \<open>long\<close>, a
  \<open>double\<close> or a string among them, is rejected whatever number it denotes.
\<close>

theorem nb_speakers_range_enforced:
  assumes reach: "c = run_inserts file_infos_init ds"
    and ok: "validates file_infos_schema (BObject ((''nb_speakers'', v0) # rest))"
    and fresh: "index_key ''filename'' (BObject rest)
                  \<notin> index_key ''filename'' ` set (documents c)"
  shows "insertOne c (BObject ((''nb_speakers'', v) # rest)) =
           (if \<exists>w. v = BInt w \<and> 1 \<le> sint w \<and> sint w \<le> 100
            then Inr (c\<lparr>documents := documents c @ [BObject ((''nb_speakers'', v) # rest)]\<rparr>)
            else Inl ValidationError)
       \<and> insertOne c (BObject (filter (\<lambda>kv. fst kv \<noteq> ''nb_speakers'') rest))
           = Inl ValidationError"
proof -
  have cfg: "validator c = Some file_infos_schema" "unique_indexes c = [''filename'']"
    using reach by (simp_all add: reachable_config)
  have v: "validates file_infos_schema (BObject ((''nb_speakers'', v) # rest))
             \<longleftrightarrow> (\<exists>w. v = BInt w \<and> 1 \<le> sint w \<and> sint w \<le> 100)"
    using validates_with_nb_speakers [OF ok] validates_nb_speakers by simp
  have first: "insertOne c (BObject ((''nb_speakers'', v) # rest)) =
           (if \<exists>w. v = BInt w \<and> 1 \<le> sint w \<and> sint w \<le> 100
            then Inr (c\<lparr>documents := documents c @ [BObject ((''nb_speakers'', v) # rest)]\<rparr>)
            else Inl ValidationError)"
    unfolding insertOne_file_infos [OF cfg] v index_key_nb_speakers using fresh by simp
  have second: "insertOne c (BObject (filter (\<lambda>kv. fst kv \<noteq> ''nb_speakers'') rest))
                  = Inl ValidationError"
    unfolding insertOne_file_infos [OF cfg] using validates_without_nb_speakers by simp
  from first second show ?thesis by simp
qed

theorem nb_speakers_range_enforced_witness:
  "validates file_infos_schema
     (BObject [(''nb_speakers'', BInt 2), (''storage_type'', BString ''PyAnnote''),
               (''filename'', BString ''meeting''), (''gridfs_id'', BObjectId ''65f0'')])
   \<and> insertOne file_infos_init
       (BObject [(''nb_speakers'', BInt 100), (''storage_type'', BString ''PyAnnote''),
                 (''filename'', BString ''meeting''), (''gridfs_id'', BObjectId ''65f0'')])
      = Inr (file_infos_init\<lparr>documents :=
               [BObject [(''nb_speakers'', BInt 100), (''storage_type'', BString ''PyAnnote''),
                         (''filename'', BString ''meeting''),
                         (''gridfs_id'', BObjectId ''65f0'')]]\<rparr>)
   \<and> insertOne file_infos_init
       (BObject [(''nb_speakers'', BInt 101), (''storage_type'', BString ''PyAnnote''),
                 (''filename'', BString ''meeting''), (''gridfs_id'', BObjectId ''65f0'')])
      = Inl ValidationError
   \<and> insertOne file_infos_init
       (BObject [(''nb_speakers'', BInt 0), (''storage_type'', BString ''PyAnnote''),
                 (''filename'', BString ''meeting''), (''gridfs_id'', BObjectId ''65f0'')])
      = Inl ValidationError
   \<and> insertOne file_infos_init
       (BObject [(''nb_speakers'', BDouble 50), (''storage_type'', BString ''PyAnnote''),
                 (''filename'', BString ''meeting''), (''gridfs_id'', BObjectId ''65f0'')])
      = Inl ValidationError
   \<and> insertOne file_infos_init
       (BObject [(''storage_type'', BString ''PyAnnote''),
                 (''filename'', BString ''meeting''), (''gridfs_id'', BObjectId ''65f0'')])
      = Inl ValidationError"
proof -
  let ?rest = "[(''storage_type'', BString ''PyAnnote''),
                (''filename'', BString ''meeting''), (''gridfs_id'', BObjectId ''65f0'')]"
  have reach: "file_infos_init = run_inserts file_infos_init []" by simp
  have ok: "validates file_infos_schema (BObject ((''nb_speakers'', BInt 2) # ?rest))"
    by (simp add: file_infos_schema_def storage_type_schema_def nb_speakers_schema_def)
  have fresh: "index_key ''filename'' (BObject ?rest)
                 \<notin> index_key ''filename'' ` set (documents file_infos_init)"
    by (simp add: file_infos_init_config)
  show ?thesis
    using ok
      nb_speakers_range_enforced [OF reach ok fresh, of "BInt 100"]
      nb_speakers_range_enforced [OF reach ok fresh, of "BInt 101"]
      nb_speakers_range_enforced [OF reach ok fresh, of "BInt 0"]
      nb_speakers_range_enforced [OF reach ok fresh, of "BDouble 50"]
    by (simp add: file_infos_init_config)
qed

subsection \<open>The unique filename\<close>

text \<open>
  Claim C6. Of two record creations with the same filename the first succeeds and the
  second always fails with \<open>DuplicateKey\<close>: the store keeps filenames unique.

  The first creation \<open>d1\<close> succeeds in a state \<open>c\<close> of \<open>file_infos\<close>; the second, \<open>d2\<close>,
  is a record that passes the validator and has the filename of \<open>d1\<close>. It is rejected
  with \<open>DuplicateKey\<close> whatever inserts \<open>es\<close> were attempted in between, and no two
  stored records share a filename.
\<close>

theorem duplicate_filename_rejected:
  assumes reach: "c = run_inserts file_infos_init ds"
    and first: "insertOne c d1 = Inr c1"
    and same: "index_key ''filename'' d2 = index_key ''filename'' d1"
    and valid: "validates file_infos_schema d2"
  shows "insertOne (run_inserts c1 es) d2 = Inl DuplicateKey
       \<and> filenames_unique (run_inserts c1 es)"
proof -
  have cfg: "validator c = Some file_infos_schema" "unique_indexes c = [''filename'']"
    using reach by (simp_all add: reachable_config)
  have c1: "c1 = c\<lparr>documents := documents c @ [d1]\<rparr>"
    using first by (auto simp: insertOne_def split: if_splits)
  have cfg1: "validator c1 = Some file_infos_schema" "unique_indexes c1 = [''filename'']"
    using cfg c1 by simp_all
  have cfg2: "validator (run_inserts c1 es) = Some file_infos_schema"
    "unique_indexes (run_inserts c1 es) = [''filename'']"
    using cfg1 by (simp_all add: run_inserts_config)
  have "d1 \<in> set (documents c1)" using c1 by simp
  then have "d1 \<in> set (documents (run_inserts c1 es))"
    using run_inserts_documents_mono by blast
  then have dup: "index_key ''filename'' d2
                    \<in> index_key ''filename'' ` set (documents (run_inserts c1 es))"
    using same by force
  have rej: "insertOne (run_inserts c1 es) d2 = Inl DuplicateKey"
    unfolding insertOne_file_infos [OF cfg2] using valid dup by simp
  have "filenames_unique c" using reach reachable_unique by simp
  then have "filenames_unique c1"
    using insertOne_keeps_unique [OF cfg(2) _ first] by simp
  then have "filenames_unique (run_inserts c1 es)"
    using run_inserts_keeps_unique [OF cfg1(2)] by simp
  with rej show ?thesis by simp
qed

theorem duplicate_filename_rejected_witness:
  "insertOne file_infos_init
     (BObject [(''storage_type'', BString ''PyAnnote''), (''filename'', BString ''meeting''),
               (''gridfs_id'', BObjectId ''65f0''), (''nb_speakers'', BInt 2)])
     = Inr (file_infos_init\<lparr>documents :=
              [BObject [(''storage_type'', BString ''PyAnnote''), (''filename'', BString ''meeting''),
                        (''gridfs_id'', BObjectId ''65f0''), (''nb_speakers'', BInt 2)]]\<rparr>)
   \<and> insertOne
       (file_infos_init\<lparr>documents :=
              [BObject [(''storage_type'', BString ''PyAnnote''), (''filename'', BString ''meeting''),
                        (''gridfs_id'', BObjectId ''65f0''), (''nb_speakers'', BInt 2)]]\<rparr>)
       (BObject [(''storage_type'', BString ''PyAnnote''), (''filename'', BString ''meeting''),
                 (''gridfs_id'', BObjectId ''65f1''), (''nb_speakers'', BInt 3)])
     = Inl DuplicateKey"
proof -
  let ?d1 = "BObject [(''storage_type'', BString ''PyAnnote''), (''filename'', BString ''meeting''),
                      (''gridfs_id'', BObjectId ''65f0''), (''nb_speakers'', BInt 2)]"
  let ?d2 = "BObject [(''storage_type'', BString ''PyAnnote''), (''filename'', BString ''meeting''),
                      (''gridfs_id'', BObjectId ''65f1''), (''nb_speakers'', BInt 3)]"
  let ?c1 = "file_infos_init\<lparr>documents := [?d1]\<rparr>"
  have reach: "file_infos_init = run_inserts file_infos_init []" by simp
  have v1: "validates file_infos_schema ?d1"
    by (simp add: file_infos_schema_def storage_type_schema_def nb_speakers_schema_def)
  have valid: "validates file_infos_schema ?d2"
    by (simp add: file_infos_schema_def storage_type_schema_def nb_speakers_schema_def)
  have first: "insertOne file_infos_init ?d1 = Inr ?c1"
    using v1 by (simp add: insertOne_def passes_validator_def duplicates_key_def
        file_infos_init_config)
  have same: "index_key ''filename'' ?d2 = index_key ''filename'' ?d1"
    by (simp add: index_key_def)
  show ?thesis
    using first duplicate_filename_rejected [OF reach first same valid, of "[]"] by simp
qed

subsection \<open>Segments\<close>

text \<open>
  Claim C7. The validator accepts every diarization segment with \<open>start \<ge> 0\<close> and
  \<open>end \<ge> 0\<close>, also when \<open>end \<le> start\<close>: it enforces that the two are not negative and
  never their order.

  A record that is valid without its segments is valid with the segments \<open>gs\<close> exactly
  when every segment has a non-negative start and a non-negative end; how the end
  compares with the start plays no part.
\<close>

theorem segment_order_not_enforced:
  assumes "validates file_infos_schema (BObject rest)"
  shows "validates file_infos_schema
           (BObject ((''diarization_result'', BArray (map segment_doc gs)) # rest))
         \<longleftrightarrow> list_all (\<lambda>g. 0 \<le> seg_start g \<and> 0 \<le> seg_end g) gs"
  using validates_with_diarization_result [OF assms] validates_diarization_result by simp

theorem segment_order_not_enforced_witness:
  "validates file_infos_schema
     (BObject [(''storage_type'', BString ''PyAnnote''), (''filename'', BString ''meeting''),
               (''gridfs_id'', BObjectId ''65f0''), (''nb_speakers'', BInt 2)])
   \<and> validates file_infos_schema
     (BObject [(''diarization_result'', BArray [segment_doc
                  \<lparr>seg_start = 5, seg_end = 2, speaker = ''SPEAKER_00'', confidence = []\<rparr>]),
               (''storage_type'', BString ''PyAnnote''), (''filename'', BString ''meeting''),
               (''gridfs_id'', BObjectId ''65f0''), (''nb_speakers'', BInt 2)])"
proof -
  have ok: "validates file_infos_schema
     (BObject [(''storage_type'', BString ''PyAnnote''), (''filename'', BString ''meeting''),
               (''gridfs_id'', BObjectId ''65f0''), (''nb_speakers'', BInt 2)])"
    by (simp add: file_infos_schema_def storage_type_schema_def nb_speakers_schema_def)
  show ?thesis
    using ok segment_order_not_enforced [OF ok,
        of "[\<lparr>seg_start = 5, seg_end = 2, speaker = ''SPEAKER_00'', confidence = []\<rparr>]"]
    by simp
qed

subsection \<open>Sample-level confidences\<close>

text \<open>
  Claim C8 says that in every valid record with sample-level confidences the resolution
  is strictly greater than zero and every score is an integer in \<open>[0, 100]\<close>. The
  schema's bound on \<open>resolution\<close> is \<open>minimum: 0.0\<close>, which zero meets: the record below
  is valid and its resolution is zero.
\<close>

theorem resolution_zero_accepted:
  "validates file_infos_schema
     (BObject [(''storage_type'', BString ''PyAnnote''), (''filename'', BString ''meeting''),
               (''gridfs_id'', BObjectId ''65f0''), (''nb_speakers'', BInt 2),
               (''sample_level_confidences'',
                  BObject [(''score'', BArray [BInt 10, BInt 90, BInt 50]),
                           (''resolution'', BDouble 0)])])
   \<and> \<not> (\<forall>fs slc. validates file_infos_schema (BObject fs)
            \<and> map_of fs ''sample_level_confidences'' = Some slc
          \<longrightarrow> (\<exists>fs' r. slc = BObject fs'
                 \<and> map_of fs' ''resolution'' = Some (BDouble r) \<and> 0 < r))"
proof -
  let ?slc = "BObject [(''score'', BArray [BInt 10, BInt 90, BInt 50]),
                       (''resolution'', BDouble 0)]"
  let ?fs = "[(''storage_type'', BString ''PyAnnote''), (''filename'', BString ''meeting''),
               (''gridfs_id'', BObjectId ''65f0''), (''nb_speakers'', BInt 2),
               (''sample_level_confidences'', ?slc)]"
  have ok: "validates file_infos_schema (BObject ?fs)"
    by (simp add: file_infos_schema_def storage_type_schema_def nb_speakers_schema_def
        sample_level_confidences_schema_def)
  have "\<not> (\<exists>fs' r. ?slc = BObject fs' \<and> map_of fs' ''resolution'' = Some (BDouble r) \<and> 0 < r)"
    by auto
  moreover have "map_of ?fs ''sample_level_confidences'' = Some ?slc" by simp
  ultimately have "\<not> (\<forall>fs slc. validates file_infos_schema (BObject fs)
            \<and> map_of fs ''sample_level_confidences'' = Some slc
          \<longrightarrow> (\<exists>fs' r. slc = BObject fs'
                 \<and> map_of fs' ''resolution'' = Some (BDouble r) \<and> 0 < r))"
    using ok by blast
  with ok show ?thesis by blast
qed

text \<open>
  Claim C8, amended. In every record that passes the validator and has
  \<open>sample_level_confidences\<close>, that field is an object whose \<open>resolution\<close> is a double
  greater than or equal to zero and whose \<open>score\<close> is an array of integers in
  \<open>[0, 100]\<close>.
\<close>

theorem sample_level_confidences_shape:
  assumes "validates file_infos_schema (BObject fs)"
    and "map_of fs ''sample_level_confidences'' = Some slc"
  shows "\<exists>fs' r xs. slc = BObject fs'
           \<and> map_of fs' ''resolution'' = Some (BDouble r) \<and> 0 \<le> r
           \<and> map_of fs' ''score'' = Some (BArray xs)
           \<and> (\<forall>x \<in> set xs. \<exists>w. x = BInt w \<and> 0 \<le> sint w \<and> sint w \<le> 100)"
proof -
  from assms have "validates sample_level_confidences_schema slc"
    by (simp add: file_infos_schema_def)
  then show ?thesis by (rule validates_sample_level_confidences)
qed

theorem sample_level_confidences_shape_witness:
  "\<exists>fs' r xs.
     BObject [(''score'', BArray [BInt 10, BInt 90, BInt 50]), (''resolution'', BDouble (1 / 2))]
       = BObject fs'
     \<and> map_of fs' ''resolution'' = Some (BDouble r) \<and> 0 \<le> r
     \<and> map_of fs' ''score'' = Some (BArray xs)
     \<and> (\<forall>x \<in> set xs. \<exists>w. x = BInt w \<and> 0 \<le> sint w \<and> sint w \<le> 100)"
proof -
  let ?slc = "BObject [(''score'', BArray [BInt 10, BInt 90, BInt 50]),
                       (''resolution'', BDouble (1 / 2))]"
  let ?fs = "[(''storage_type'', BString ''PyAnnote''), (''filename'', BString ''meeting''),
               (''gridfs_id'', BObjectId ''65f0''), (''nb_speakers'', BInt 2),
               (''sample_level_confidences'', ?slc)]"
  have ok: "validates file_infos_schema (BObject ?fs)"
    by (simp add: file_infos_schema_def storage_type_schema_def nb_speakers_schema_def
        sample_level_confidences_schema_def)
  have m: "map_of ?fs ''sample_level_confidences'' = Some ?slc" by simp
  show ?thesis using sample_level_confidences_shape [OF ok m] .
qed

section \<open>Properties of the page script\<close>

subsection \<open>Reading a slider\<close>

lemma digit_value_digit: "d < 10 \<Longrightarrow> digit_value (char_of (48 + d :: nat)) = Some d"
  by (simp add: digit_value_def Let_def)

lemma is_digit_digit: "d < 10 \<Longrightarrow> is_digit 10 (char_of (48 + d :: nat))"
  by (simp add: is_digit_def digit_value_digit)

lemma is_space_code: "is_space c \<Longrightarrow> (of_char c :: nat) < 48"
  by (auto simp: is_space_def)

lemma digit_not_space: "d < 10 \<Longrightarrow> \<not> is_space (char_of (48 + d :: nat))"
  using is_space_code [of "char_of (48 + d)"] by auto

lemma digit_not_special:
  assumes "d < 10"
  shows "char_of (48 + d :: nat) \<noteq> CHR ''-''" "char_of (48 + d :: nat) \<noteq> CHR ''+''"
    "char_of (48 + d :: nat) \<noteq> CHR ''x''" "char_of (48 + d :: nat) \<noteq> CHR ''X''"
proof -
  have v: "(of_char (char_of (48 + d :: nat)) :: nat) = 48 + d" using assms by simp
  show "char_of (48 + d :: nat) \<noteq> CHR ''-''"
  proof
    assume "char_of (48 + d) = CHR ''-''"
    then have "(of_char (char_of (48 + d :: nat)) :: nat) = of_char CHR ''-''" by simp
    with v show False by simp
  qed
  show "char_of (48 + d :: nat) \<noteq> CHR ''+''"
  proof
    assume "char_of (48 + d) = CHR ''+''"
    then have "(of_char (char_of (48 + d :: nat)) :: nat) = of_char CHR ''+''" by simp
    with v show False by simp
  qed
  show "char_of (48 + d :: nat) \<noteq> CHR ''x''"
  proof
    assume "char_of (48 + d) = CHR ''x''"
    then have "(of_char (char_of (48 + d :: nat)) :: nat) = of_char CHR ''x''" by simp
    with v assms show False by simp
  qed
  show "char_of (48 + d :: nat) \<noteq> CHR ''X''"
  proof
    assume "char_of (48 + d) = CHR ''X''"
    then have "(of_char (char_of (48 + d :: nat)) :: nat) = of_char CHR ''X''" by simp
    with v assms show False by simp
  qed
qed

lemma digits_value_snoc:
  "digits_value radix acc (xs @ [c]) =
     (case digit_value c of None \<Rightarrow> digits_value radix acc xs
      | Some d \<Rightarrow> digits_value radix acc xs * radix + d)"
  by (induction xs arbitrary: acc) (auto split: option.splits)

lemma decimal_digits: "c \<in> set (decimal n) \<Longrightarrow> \<exists>d<10. c = char_of (48 + d :: nat)"
proof (induction n arbitrary: c rule: decimal.induct)
  case (1 n)
  show ?case
  proof (cases "n < 10")
    case True
    with "1.prems" have "c = char_of (48 + n)" by (subst (asm) decimal.simps) simp
    with True show ?thesis by blast
  next
    case False
    from "1.prems" False have "c \<in> set (decimal (n div 10)) \<or> c = char_of (48 + n mod 10)"
      by (subst (asm) decimal.simps) auto
    then show ?thesis
    proof
      assume "c \<in> set (decimal (n div 10))"
      then show ?thesis using "1.IH" False by blast
    next
      assume "c = char_of (48 + n mod 10)"
      moreover have "n mod 10 < 10" by simp
      ultimately show ?thesis by blast
    qed
  qed
qed

lemma decimal_not_empty: "decimal n \<noteq> []"
  by (subst decimal.simps) simp

lemma decimal_value: "digits_value 10 0 (decimal n) = n"
proof (induction n rule: decimal.induct)
  case (1 n)
  show ?case
  proof (cases "n < 10")
    case True
    then show ?thesis by (subst decimal.simps) (simp add: digit_value_digit)
  next
    case False
    have "digits_value 10 0 (decimal n)
            = digits_value 10 0 (decimal (n div 10) @ [char_of (48 + n mod 10)])"
      using False by (subst decimal.simps) simp
    also have "\<dots> = digits_value 10 0 (decimal (n div 10)) * 10 + n mod 10"
      by (simp add: digits_value_snoc digit_value_digit)
    also have "\<dots> = n" using "1.IH" False by simp
    finally show ?thesis .
  qed
qed

text \<open>A slider whose value is the decimal numeral of \<open>n\<close> is read as \<open>n\<close>.\<close>

lemma parseInt_decimal: "parseInt (decimal n) = Number (int n)"
proof -
  obtain c cs where dec: "decimal n = c # cs"
    using decimal_not_empty [of n] by (cases "decimal n") auto
  from decimal_digits [of c n] dec obtain d :: nat where d: "d < 10" "c = char_of (48 + d)" by auto
  have all: "\<forall>x \<in> set (c # cs). is_digit 10 x"
    using decimal_digits [of _ n] dec is_digit_digit by force
  have nohex: "take 2 (c # cs) \<noteq> ''0x''" "take 2 (c # cs) \<noteq> ''0X''"
  proof -
    show "take 2 (c # cs) \<noteq> ''0x''"
    proof (cases cs)
      case Nil
      then show ?thesis by simp
    next
      case (Cons c' cs')
      with decimal_digits [of c' n] dec obtain d' :: nat where "d' < 10" "c' = char_of (48 + d')"
        by auto
      then have "c' \<noteq> CHR ''x''" using digit_not_special(3) by simp
      with Cons show ?thesis by (simp add: numeral_2_eq_2)
    qed
    show "take 2 (c # cs) \<noteq> ''0X''"
    proof (cases cs)
      case Nil
      then show ?thesis by simp
    next
      case (Cons c' cs')
      with decimal_digits [of c' n] dec obtain d' :: nat where "d' < 10" "c' = char_of (48 + d')"
        by auto
      then have "c' \<noteq> CHR ''X''" using digit_not_special(4) by simp
      with Cons show ?thesis by (simp add: numeral_2_eq_2)
    qed
  qed
  have sp: "\<not> is_space c" and sg: "c \<noteq> CHR ''-''" "c \<noteq> CHR ''+''"
    using d digit_not_space digit_not_special by simp_all
  have tw: "takeWhile (is_digit 10) (c # cs) = c # cs"
    using all by (simp add: takeWhile_eq_all_conv del: takeWhile.simps)
  have "parseInt (c # cs) = Number (int (digits_value 10 0 (c # cs)))"
    by (simp add: parseInt_def Let_def sp sg nohex tw
        del: takeWhile.simps digits_value.simps take_Cons_numeral)
  then show ?thesis using dec decimal_value [of n] by simp
qed

subsection \<open>The bounds check of the range-query forms\<close>

lemma selectMeanForm_human_bounds:
  assumes "parseInt (humanBorneInfSlider ui) = Number a"
    and "parseInt (humanBorneSupSlider ui) = Number b" and "b \<le> a"
  shows "selectMeanForm_submit ui
           = Returned ''The lower human score bound must be less than the upper bound.''"
  using assms by (simp add: selectMeanForm_submit_def)

lemma selectMeanForm_sample_bounds:
  assumes "parseInt (sampleLevelBorneInfSlider ui) = Number a"
    and "parseInt (sampleLevelBorneSupSlider ui) = Number b" and "b \<le> a"
  shows "\<exists>msg. selectMeanForm_submit ui = Returned msg"
  using assms by (simp add: selectMeanForm_submit_def Let_def)

lemma selectSampleLevelForm_bounds:
  assumes "parseInt (frameBorneInfSlider ui) = Number a"
    and "parseInt (frameBorneSupSlider ui) = Number b" and "b \<le> a"
  shows "selectSampleLevelForm_submit ui
           = Returned ''The lower frame score bound must be less than the upper bound.''"
  using assms by (simp add: selectSampleLevelForm_submit_def)

lemma selectTurnLevelForm_bounds:
  assumes "parseInt (turnBorneInfSlider ui) = Number a"
    and "parseInt (turnBorneSupSlider ui) = Number b" and "b \<le> a"
  shows "selectTurnLevelForm_submit ui
           = Returned ''The lower turn score bound must be less than the upper bound.''"
  using assms by (simp add: selectTurnLevelForm_submit_def)

text \<open>
  In particular for sliders that show whole numbers: with the lower slider at \<open>a\<close> and
  the upper one at \<open>b \<le> a\<close> nothing is sent.
\<close>

lemma range_forms_reject_numerals:
  "b \<le> a \<Longrightarrow> humanBorneInfSlider ui = decimal a \<Longrightarrow> humanBorneSupSlider ui = decimal b
     \<Longrightarrow> \<exists>msg. selectMeanForm_submit ui = Returned msg"
  "b \<le> a \<Longrightarrow> sampleLevelBorneInfSlider ui = decimal a
     \<Longrightarrow> sampleLevelBorneSupSlider ui = decimal b
     \<Longrightarrow> \<exists>msg. selectMeanForm_submit ui = Returned msg"
  "b \<le> a \<Longrightarrow> frameBorneInfSlider ui = decimal a \<Longrightarrow> frameBorneSupSlider ui = decimal b
     \<Longrightarrow> \<exists>msg. selectSampleLevelForm_submit ui = Returned msg"
  "b \<le> a \<Longrightarrow> turnBorneInfSlider ui = decimal a \<Longrightarrow> turnBorneSupSlider ui = decimal b
     \<Longrightarrow> \<exists>msg. selectTurnLevelForm_submit ui = Returned msg"
  using selectMeanForm_human_bounds [of ui "int a" "int b"]
    selectMeanForm_sample_bounds [of ui "int a" "int b"]
    selectSampleLevelForm_bounds [of ui "int a" "int b"]
    selectTurnLevelForm_bounds [of ui "int a" "int b"]
  by (simp_all add: parseInt_decimal)

text \<open>With ordered bounds, and a file chosen, each form does issue its request.\<close>

lemma selectMeanForm_sends:
  assumes "parseInt (humanBorneInfSlider ui) = Number a"
    and "parseInt (humanBorneSupSlider ui) = Number b" and "a < b"
    and "parseInt (sampleLevelBorneInfSlider ui) = Number c"
    and "parseInt (sampleLevelBorneSupSlider ui) = Number d" and "c < d"
  shows "selectMeanForm_submit ui =
           Fetched \<lparr>http_method = ''GET'', path = ''/get_filenames_by_mean_scores'',
                    params = [(''human_score_min'', PNumber (Number a)),
                              (''human_score_max'', PNumber (Number b)),
                              (''sample_score_min'', PNumber (Number c)),
                              (''sample_score_max'', PNumber (Number d))]\<rparr>"
  using assms by (simp add: selectMeanForm_submit_def)

lemma selectSampleLevelForm_sends:
  assumes "parseInt (frameBorneInfSlider ui) = Number a"
    and "parseInt (frameBorneSupSlider ui) = Number b" and "a < b"
    and "trim (filenameSample ui) \<noteq> []"
  shows "selectSampleLevelForm_submit ui =
           Fetched \<lparr>http_method = ''GET'', path = ''/get_sample_level_confidences_by_filename'',
                    params = [(''min_score'', PNumber (Number a)),
                              (''max_score'', PNumber (Number b)),
                              (''filename'', PString (trim (filenameSample ui)))]\<rparr>"
  using assms by (simp add: selectSampleLevelForm_submit_def)

lemma selectTurnLevelForm_sends:
  assumes "parseInt (turnBorneInfSlider ui) = Number a"
    and "parseInt (turnBorneSupSlider ui) = Number b" and "a < b"
    and "trim (filenameTurn ui) \<noteq> []"
  shows "selectTurnLevelForm_submit ui =
           Fetched \<lparr>http_method = ''GET'', path = ''/get_turn_level_confidences_by_filename'',
                    params = [(''min_score'', PNumber (Number a)),
                              (''max_score'', PNumber (Number b)),
                              (''filename'', PString (trim (filenameTurn ui)))]\<rparr>"
  using assms by (simp add: selectTurnLevelForm_submit_def)

text \<open>
  Claim C9. Whenever one of the three range-query forms is submitted with a lower bound
  greater than or equal to its upper bound, the page checks the pair before any request
  and sends none.

  The bounds are the integers that \<open>parseInt\<close> reads from the sliders. The mean form has
  two pairs and returns at the first that is out of order; the sample-level and the
  turn-level form have one pair each.
\<close>

theorem range_forms_check_bounds:
  "(parseInt (humanBorneInfSlider ui) = Number hmin
      \<and> parseInt (humanBorneSupSlider ui) = Number hmax \<and> hmax \<le> hmin
      \<longrightarrow> (\<exists>msg. selectMeanForm_submit ui = Returned msg))
   \<and> (parseInt (sampleLevelBorneInfSlider ui) = Number smin
      \<and> parseInt (sampleLevelBorneSupSlider ui) = Number smax \<and> smax \<le> smin
      \<longrightarrow> (\<exists>msg. selectMeanForm_submit ui = Returned msg))
   \<and> (parseInt (frameBorneInfSlider ui) = Number fmin
      \<and> parseInt (frameBorneSupSlider ui) = Number fmax \<and> fmax \<le> fmin
      \<longrightarrow> (\<exists>msg. selectSampleLevelForm_submit ui = Returned msg))
   \<and> (parseInt (turnBorneInfSlider ui) = Number tmin
      \<and> parseInt (turnBorneSupSlider ui) = Number tmax \<and> tmax \<le> tmin
      \<longrightarrow> (\<exists>msg. selectTurnLevelForm_submit ui = Returned msg))"
  using selectMeanForm_human_bounds [of ui hmin hmax]
    selectMeanForm_sample_bounds [of ui smin smax]
    selectSampleLevelForm_bounds [of ui fmin fmax]
    selectTurnLevelForm_bounds [of ui tmin tmax]
  by simp

theorem range_forms_check_bounds_witness:
  "parseInt ''60'' = Number 60 \<and> parseInt ''40'' = Number 40
   \<and> (\<exists>msg. selectMeanForm_submit
         \<lparr>humanBorneInfSlider = ''60'', humanBorneSupSlider = ''40'',
          sampleLevelBorneInfSlider = ''60'', sampleLevelBorneSupSlider = ''40'',
          frameBorneInfSlider = ''60'', frameBorneSupSlider = ''40'',
          turnBorneInfSlider = ''60'', turnBorneSupSlider = ''40'',
          filenameSample = ''meeting'', filenameTurn = ''meeting''\<rparr> = Returned msg)
   \<and> (\<exists>msg. selectSampleLevelForm_submit
         \<lparr>humanBorneInfSlider = ''60'', humanBorneSupSlider = ''40'',
          sampleLevelBorneInfSlider = ''60'', sampleLevelBorneSupSlider = ''40'',
          frameBorneInfSlider = ''60'', frameBorneSupSlider = ''40'',
          turnBorneInfSlider = ''60'', turnBorneSupSlider = ''40'',
          filenameSample = ''meeting'', filenameTurn = ''meeting''\<rparr> = Returned msg)
   \<and> (\<exists>msg. selectTurnLevelForm_submit
         \<lparr>humanBorneInfSlider = ''60'', humanBorneSupSlider = ''40'',
          sampleLevelBorneInfSlider = ''60'', sampleLevelBorneSupSlider = ''40'',
          frameBorneInfSlider = ''60'', frameBorneSupSlider = ''40'',
          turnBorneInfSlider = ''60'', turnBorneSupSlider = ''40'',
          filenameSample = ''meeting'', filenameTurn = ''meeting''\<rparr> = Returned msg)"
proof -
  let ?ui = "\<lparr>humanBorneInfSlider = ''60'', humanBorneSupSlider = ''40'',
          sampleLevelBorneInfSlider = ''60'', sampleLevelBorneSupSlider = ''40'',
          frameBorneInfSlider = ''60'', frameBorneSupSlider = ''40'',
          turnBorneInfSlider = ''60'', turnBorneSupSlider = ''40'',
          filenameSample = ''meeting'', filenameTurn = ''meeting''\<rparr>"
  have p60: "parseInt ''60'' = Number 60" and p40: "parseInt ''40'' = Number 40"
    by (simp_all add: parseInt_def is_space_def is_digit_def digit_value_def)
  show ?thesis
    using p60 p40 range_forms_check_bounds [of ?ui 60 40 60 40 60 40 60 40]
    by simp
qed

subsection \<open>The upload form\<close>

text \<open>
  Claim C10 says that an upload request is issued only for a file whose name ends in
  \<open>.wav\<close>, whatever the case, and whose type is \<open>audio/wav\<close> or \<open>audio/x-wav\<close>, and that
  for any other file the handler resets the input fields and sends no request. The
  handler looks at the number of speakers before it looks at the file: with no number
  entered it returns at once, and the fields of a file that is not a WAV file stay as
  they are.
\<close>

theorem upload_not_wav_not_reset:
  "uploadForm_submit 0
     \<lparr>audio = Some \<lparr>file_name = ''talk.mp3'', mime_type = ''audio/mpeg''\<rparr>,
      filenameUpload = ''talk'', storageType = ''PyAnnote'', nbSpeakers = []\<rparr>
   = (\<lparr>audio = Some \<lparr>file_name = ''talk.mp3'', mime_type = ''audio/mpeg''\<rparr>,
       filenameUpload = ''talk'', storageType = ''PyAnnote'', nbSpeakers = []\<rparr>,
      Returned ''Please select a number of speakers.'')
   \<and> \<not> endsWith (toLowerCase ''talk.mp3'') ''.wav''
   \<and> resetFileInputFields
       \<lparr>audio = Some \<lparr>file_name = ''talk.mp3'', mime_type = ''audio/mpeg''\<rparr>,
        filenameUpload = ''talk'', storageType = ''PyAnnote'', nbSpeakers = []\<rparr>
     \<noteq> \<lparr>audio = Some \<lparr>file_name = ''talk.mp3'', mime_type = ''audio/mpeg''\<rparr>,
        filenameUpload = ''talk'', storageType = ''PyAnnote'', nbSpeakers = []\<rparr>"
  by (simp add: uploadForm_submit_def resetFileInputFields_def endsWith_def toLowerCase_def)

text \<open>
  Claim C10, amended. An upload request is issued only when the selected file's name
  ends in \<open>.wav\<close> (case-insensitive) and its type is \<open>audio/wav\<close> or \<open>audio/x-wav\<close>; for
  any other file the handler sends no request, and, when a number of speakers has been
  entered, it resets the input fields.
\<close>

theorem upload_only_wav:
  "(snd (uploadForm_submit n ui) = Fetched req
      \<longrightarrow> (\<exists>f. audio ui = Some f \<and> endsWith (toLowerCase (file_name f)) ''.wav''
               \<and> (mime_type f = ''audio/wav'' \<or> mime_type f = ''audio/x-wav'')))
   \<and> (audio ui = Some f
       \<and> \<not> (endsWith (toLowerCase (file_name f)) ''.wav''
              \<and> (mime_type f = ''audio/wav'' \<or> mime_type f = ''audio/x-wav''))
      \<longrightarrow> (\<exists>msg. snd (uploadForm_submit n ui) = Returned msg)
          \<and> (nbSpeakers ui \<noteq> []
               \<longrightarrow> uploadForm_submit n ui
                     = (resetFileInputFields ui, Returned ''The file must be a WAV file (.wav).'')))"
  by (auto simp: uploadForm_submit_def Let_def split: option.splits if_splits)

theorem upload_only_wav_witness:
  "uploadForm_submit 3
     \<lparr>audio = Some \<lparr>file_name = ''Take1.WAV'', mime_type = ''audio/x-wav''\<rparr>,
      filenameUpload = '' Take1 '', storageType = ''PyAnnote'', nbSpeakers = ''2''\<rparr>
   = (\<lparr>audio = None, filenameUpload = [], storageType = ''PyAnnote'', nbSpeakers = ''2''\<rparr>,
      Fetched \<lparr>http_method = ''POST'', path = ''/upload'',
               params = [(''file'', PFile \<lparr>file_name = ''Take1.WAV'', mime_type = ''audio/x-wav''\<rparr>),
                         (''filename'', PString ''Take1''),
                         (''storage_type'', PString ''PyAnnote''),
                         (''file_id'', PString ''file-4''),
                         (''content_type'', PString ''audio/x-wav''),
                         (''nb_speakers'', PString ''2'')]\<rparr>)
   \<and> endsWith (toLowerCase ''Take1.WAV'') ''.wav''
   \<and> uploadForm_submit 3
     \<lparr>audio = Some \<lparr>file_name = ''talk.mp3'', mime_type = ''audio/mpeg''\<rparr>,
      filenameUpload = ''talk'', storageType = ''PyAnnote'', nbSpeakers = ''2''\<rparr>
   = (\<lparr>audio = None, filenameUpload = [], storageType = ''PyAnnote'', nbSpeakers = ''2''\<rparr>,
      Returned ''The file must be a WAV file (.wav).'')"
proof -
  let ?wav = "\<lparr>file_name = ''Take1.WAV'', mime_type = ''audio/x-wav''\<rparr>"
  let ?mp3 = "\<lparr>file_name = ''talk.mp3'', mime_type = ''audio/mpeg''\<rparr>"
  let ?ui1 = "\<lparr>audio = Some ?wav, filenameUpload = '' Take1 '', storageType = ''PyAnnote'',
               nbSpeakers = ''2''\<rparr>"
  let ?ui2 = "\<lparr>audio = Some ?mp3, filenameUpload = ''talk'', storageType = ''PyAnnote'',
               nbSpeakers = ''2''\<rparr>"
  let ?req = "\<lparr>http_method = ''POST'', path = ''/upload'',
               params = [(''file'', PFile ?wav),
                         (''filename'', PString ''Take1''),
                         (''storage_type'', PString ''PyAnnote''),
                         (''file_id'', PString ''file-4''),
                         (''content_type'', PString ''audio/x-wav''),
                         (''nb_speakers'', PString ''2'')]\<rparr>"
  have sent: "uploadForm_submit 3 ?ui1
                = (\<lparr>audio = None, filenameUpload = [], storageType = ''PyAnnote'',
                    nbSpeakers = ''2''\<rparr>, Fetched ?req)"
    by code_simp
  have ext: "endsWith (toLowerCase ''Take1.WAV'') ''.wav''"
    by code_simp
  have no: "\<not> endsWith (toLowerCase ''talk.mp3'') ''.wav''"
    by code_simp
  have reset: "resetFileInputFields ?ui2
                 = \<lparr>audio = None, filenameUpload = [], storageType = ''PyAnnote'',
                    nbSpeakers = ''2''\<rparr>"
    by (simp add: resetFileInputFields_def)
  from upload_only_wav [of 3 ?ui2 ?req ?mp3] no reset
  have "uploadForm_submit 3 ?ui2
          = (\<lparr>audio = None, filenameUpload = [], storageType = ''PyAnnote'',
              nbSpeakers = ''2''\<rparr>, Returned ''The file must be a WAV file (.wav).'')"
    by simp
  with sent ext show ?thesis by simp
qed

section \<open>Properties of the range queries\<close>

subsection \<open>The mean-score range query\<close>

lemma mean_score_query_set:
  "set (mean_score_query store h0 h1 s0 s1) =
     {\<lparr>entry_filename = filename r, entry_humanScore = h, entry_sampleLevelMeanScore = s\<rparr>
      | r h s.
        r \<in> set store \<and> humanScore r = Some h \<and> sampleLevelMeanScore r = Some s
        \<and> h0 \<le> real_of_int h \<and> real_of_int h \<le> h1 \<and> s0 \<le> s \<and> s \<le> s1}"
proof (induction store)
  case Nil
  then show ?case by simp
next
  case (Cons r rs)
  show ?case
  proof (cases "humanScore r")
    case None
    then show ?thesis using Cons.IH by auto
  next
    case hs: (Some h)
    show ?thesis
    proof (cases "sampleLevelMeanScore r")
      case None
      then show ?thesis using Cons.IH hs by auto
    next
      case (Some s)
      then show ?thesis using Cons.IH hs by auto
    qed
  qed
qed

lemma mean_score_query_filenames:
  "e \<in> set (mean_score_query store h0 h1 s0 s1) \<Longrightarrow>
     \<exists>r \<in> set store. filename r = entry_filename e \<and> humanScore r \<noteq> None"
  unfolding mean_score_query_set by auto

text \<open>
  Claim C1. For bounds \<open>h0 \<le> h1\<close> and \<open>s0 \<le> s1\<close> and every record store, the mean-score
  range query returns exactly the records whose \<open>humanScore\<close> lies in \<open>[h0, h1]\<close> and
  whose \<open>sampleLevelMeanScore\<close> lies in \<open>[s0, s1]\<close>, both intervals inclusive and both
  conditions required; a record without \<open>humanScore\<close> is never returned.

  The answer is the set of projections of the matching records. Filenames are unique in
  the store, so a record without \<open>humanScore\<close> is not returned when its filename is in
  no entry of the answer.
\<close>

theorem mean_score_query_exact:
  assumes "h0 \<le> h1" and "s0 \<le> s1" and "distinct (map filename store)"
  shows "set (mean_score_query store h0 h1 s0 s1) =
     {\<lparr>entry_filename = filename r, entry_humanScore = h, entry_sampleLevelMeanScore = s\<rparr>
      | r h s.
        r \<in> set store \<and> humanScore r = Some h \<and> sampleLevelMeanScore r = Some s
        \<and> h0 \<le> real_of_int h \<and> real_of_int h \<le> h1 \<and> s0 \<le> s \<and> s \<le> s1}
     \<and> (\<forall>r \<in> set store. humanScore r = None \<longrightarrow>
           filename r \<notin> entry_filename ` set (mean_score_query store h0 h1 s0 s1))"
proof -
  have absent: "filename r \<notin> entry_filename ` set (mean_score_query store h0 h1 s0 s1)"
    if r: "r \<in> set store" and none: "humanScore r = None" for r
  proof
    assume "filename r \<in> entry_filename ` set (mean_score_query store h0 h1 s0 s1)"
    then obtain e where e: "e \<in> set (mean_score_query store h0 h1 s0 s1)"
      and fe: "entry_filename e = filename r" by auto
    from mean_score_query_filenames [OF e] obtain r' where
      r': "r' \<in> set store" "filename r' = entry_filename e" "humanScore r' \<noteq> None" by auto
    from assms(3) r r' fe have "r' = r"
      by (metis distinct_map inj_onD)
    with r' none show False by simp
  qed
  show ?thesis using mean_score_query_set absent by blast
qed

theorem mean_score_query_exact_witness:
  "mean_score_query
     [\<lparr>filename = ''a.wav'', storageReference = ''file-1'', storageKind = ''PyAnnote'',
       speakerCount = 2, jobReference = None, humanScore = Some 80,
       sampleLevelMeanScore = Some (145 / 2), sampleLevelConfidences = None,
       diarizationSegments = None\<rparr>,
      \<lparr>filename = ''b.wav'', storageReference = ''file-2'', storageKind = ''PyAnnote'',
       speakerCount = 3, jobReference = None, humanScore = None,
       sampleLevelMeanScore = Some 90, sampleLevelConfidences = None,
       diarizationSegments = None\<rparr>,
      \<lparr>filename = ''c.wav'', storageReference = ''file-3'', storageKind = ''PyAnnote'',
       speakerCount = 2, jobReference = None, humanScore = Some 50,
       sampleLevelMeanScore = Some 30, sampleLevelConfidences = None,
       diarizationSegments = None\<rparr>] 50 100 50 100
   = [\<lparr>entry_filename = ''a.wav'', entry_humanScore = 80,
       entry_sampleLevelMeanScore = 145 / 2\<rparr>]
   \<and> ''b.wav'' \<notin> entry_filename ` set (mean_score_query
     [\<lparr>filename = ''a.wav'', storageReference = ''file-1'', storageKind = ''PyAnnote'',
       speakerCount = 2, jobReference = None, humanScore = Some 80,
       sampleLevelMeanScore = Some (145 / 2), sampleLevelConfidences = None,
       diarizationSegments = None\<rparr>,
      \<lparr>filename = ''b.wav'', storageReference = ''file-2'', storageKind = ''PyAnnote'',
       speakerCount = 3, jobReference = None, humanScore = None,
       sampleLevelMeanScore = Some 90, sampleLevelConfidences = None,
       diarizationSegments = None\<rparr>,
      \<lparr>filename = ''c.wav'', storageReference = ''file-3'', storageKind = ''PyAnnote'',
       speakerCount = 2, jobReference = None, humanScore = Some 50,
       sampleLevelMeanScore = Some 30, sampleLevelConfidences = None,
       diarizationSegments = None\<rparr>] 50 100 50 100)"
proof -
  let ?b = "\<lparr>filename = ''b.wav'', storageReference = ''file-2'', storageKind = ''PyAnnote'',
       speakerCount = 3, jobReference = None, humanScore = None,
       sampleLevelMeanScore = Some 90, sampleLevelConfidences = None,
       diarizationSegments = None\<rparr>"
  let ?store = "[\<lparr>filename = ''a.wav'', storageReference = ''file-1'', storageKind = ''PyAnnote'',
       speakerCount = 2, jobReference = None, humanScore = Some 80,
       sampleLevelMeanScore = Some (145 / 2), sampleLevelConfidences = None,
       diarizationSegments = None\<rparr>, ?b,
      \<lparr>filename = ''c.wav'', storageReference = ''file-3'', storageKind = ''PyAnnote'',
       speakerCount = 2, jobReference = None, humanScore = Some 50,
       sampleLevelMeanScore = Some 30, sampleLevelConfidences = None,
       diarizationSegments = None\<rparr>]"
  have bounds: "(50::real) \<le> 100" by simp
  have uniq: "distinct (map filename ?store)" by simp
  have answer: "mean_score_query ?store 50 100 50 100
                  = [\<lparr>entry_filename = ''a.wav'', entry_humanScore = 80,
                      entry_sampleLevelMeanScore = 145 / 2\<rparr>]"
    by simp
  from mean_score_query_exact [OF bounds bounds uniq]
  have "\<forall>r \<in> set ?store. humanScore r = None \<longrightarrow>
          filename r \<notin> entry_filename ` set (mean_score_query ?store 50 100 50 100)"
    by (rule conjunct2)
  then have "humanScore ?b = None \<longrightarrow>
          filename ?b \<notin> entry_filename ` set (mean_score_query ?store 50 100 50 100)"
    by (rule bspec) simp
  then have "''b.wav'' \<notin> entry_filename ` set (mean_score_query ?store 50 100 50 100)"
    by simp
  with answer show ?thesis by simp
qed

subsection \<open>The sample-level confidence window query\<close>

lemma upt_shift: "[k..<k + Suc n] = k # [Suc k..<Suc k + n]"
  by (simp add: upt_conv_Cons del: upt_Suc)

lemma zip_upt_Cons:
  "zip [k..<k + length (s # ss)] (s # ss) = (k, s) # zip [Suc k..<Suc k + length ss] ss"
proof -
  have "[k..<k + length (s # ss)] = k # [Suc k..<Suc k + length ss]"
    using upt_shift [of k "length ss"] by simp
  then show ?thesis by (simp only: zip_Cons_Cons)
qed

lemma sample_windows_zip:
  "sample_windows k res lo hi ss =
     map (\<lambda>(i, s). \<lparr>window_confidence = s, window_start = real i * res,
                    window_end = real (i + 1) * res\<rparr>)
       (filter (\<lambda>(i, s). lo \<le> real_of_int s \<and> real_of_int s \<le> hi)
          (zip [k..<k + length ss] ss))"
proof (induction ss arbitrary: k)
  case Nil
  then show ?case by simp
next
  case (Cons s ss)
  show ?case
    unfolding zip_upt_Cons sample_windows.simps Cons.IH [of "Suc k"] by simp
qed

lemma zip_upt_nth: "zip [0..<length ss] ss = map (\<lambda>i. (i, ss ! i)) [0..<length ss]"
  by (rule nth_equalityI) simp_all

lemma sample_windows_index:
  "sample_windows 0 res lo hi ss =
     map (\<lambda>i. \<lparr>window_confidence = ss ! i, window_start = real i * res,
               window_end = real (i + 1) * res\<rparr>)
       (filter (\<lambda>i. lo \<le> real_of_int (ss ! i) \<and> real_of_int (ss ! i) \<le> hi) [0..<length ss])"
  using sample_windows_zip [of 0 res lo hi ss]
  by (simp add: zip_upt_nth filter_map comp_def)

text \<open>
  Claim C2. For a record that has \<open>sampleLevelConfidences\<close>, with scores \<open>s\<close> and
  resolution \<open>r\<close>, and bounds \<open>scoreMin \<le> scoreMax\<close>, the sample-level window query
  returns, in index order, one entry \<open>{confidence, start, end}\<close> for exactly each index
  \<open>i\<close> with \<open>scoreMin \<le> s[i] \<le> scoreMax\<close>, where \<open>start = i * r\<close> and
  \<open>end = (i + 1) * r\<close>. With \<open>r = 0.5\<close>, \<open>s = [10, 90, 50]\<close> and bounds \<open>[40, 100]\<close> the
  entries are \<open>{90, 0.5, 1.0}\<close> and then \<open>{50, 1.0, 1.5}\<close>.
\<close>

theorem sample_level_query_windows:
  assumes "scoreMin \<le> scoreMax"
    and "find_record store name = Some r"
    and "sampleLevelConfidences r = Some c"
  shows "sample_level_query store name scoreMin scoreMax =
           Inr (map (\<lambda>i. \<lparr>window_confidence = scores c ! i,
                          window_start = real i * resolution c,
                          window_end = real (i + 1) * resolution c\<rparr>)
                  (filter (\<lambda>i. scoreMin \<le> real_of_int (scores c ! i)
                              \<and> real_of_int (scores c ! i) \<le> scoreMax)
                     [0..<length (scores c)]))
       \<and> sample_windows 0 (1 / 2) 40 100 [10, 90, 50] =
           [\<lparr>window_confidence = 90, window_start = 1 / 2, window_end = 1\<rparr>,
            \<lparr>window_confidence = 50, window_start = 1, window_end = 3 / 2\<rparr>]"
proof -
  have "sample_windows 0 (1 / 2) 40 100 [10, 90, 50] =
           [\<lparr>window_confidence = 90, window_start = 1 / 2, window_end = 1\<rparr>,
            \<lparr>window_confidence = 50, window_start = 1, window_end = 3 / 2\<rparr>]"
    by simp
  then show ?thesis
    using assms(2,3) by (simp add: sample_level_query_def sample_windows_index)
qed

theorem sample_level_query_windows_witness:
  "sample_level_query
     [\<lparr>filename = ''a.wav'', storageReference = ''file-1'', storageKind = ''PyAnnote'',
       speakerCount = 2, jobReference = None, humanScore = None,
       sampleLevelMeanScore = Some 50,
       sampleLevelConfidences = Some \<lparr>scores = [10, 90, 50], resolution = 1 / 2\<rparr>,
       diarizationSegments = None\<rparr>] ''a.wav'' 40 100
   = Inr [\<lparr>window_confidence = 90, window_start = 1 / 2, window_end = 1\<rparr>,
          \<lparr>window_confidence = 50, window_start = 1, window_end = 3 / 2\<rparr>]"
proof -
  let ?c = "\<lparr>scores = [10, 90, 50], resolution = 1 / 2\<rparr>"
  let ?r = "\<lparr>filename = ''a.wav'', storageReference = ''file-1'', storageKind = ''PyAnnote'',
       speakerCount = 2, jobReference = None, humanScore = None,
       sampleLevelMeanScore = Some 50, sampleLevelConfidences = Some ?c,
       diarizationSegments = None\<rparr>"
  have bounds: "(40::real) \<le> 100" by simp
  have found: "find_record [?r] ''a.wav'' = Some ?r" by (simp add: find_record_def)
  have present: "sampleLevelConfidences ?r = Some ?c" by simp
  have idx: "[0..<length (scores ?c)] = [0, 1, 2]" by (simp add: upt_conv_Cons)
  show ?thesis
    using sample_level_query_windows [OF bounds found present]
    unfolding idx by simp
qed

subsection \<open>The turn-level confidence window query\<close>

lemma turn_windows_kept:
  "list_all2 (\<lambda>e g. \<exists>c. sub g = Some c
                 \<and> e = \<lparr>turn_start = seg_start g, turn_end = seg_end g, turn_speaker = speaker g,
                        speakerConfidence = c\<rparr>)
     (turn_windows sub lo hi gs)
     (filter (\<lambda>g. \<exists>c. sub g = Some c \<and> lo \<le> c \<and> c \<le> hi) gs)"
  by (induction gs) (auto split: option.splits)

text \<open>
  Claim C3. For a record that has \<open>diarizationSegments\<close> and bounds
  \<open>scoreMin \<le> scoreMax\<close>, the turn-level window query returns one entry
  \<open>{start, end, speaker, speakerConfidence}\<close> for exactly the segments whose confidence
  sub-score lies in \<open>[scoreMin, scoreMax]\<close>, both ends included, in the order in which
  the segments are stored.

  The kept segments are the stored list filtered by the bounds, a subsequence of it, and
  the entries correspond to them one by one.
\<close>

theorem turn_level_query_segments:
  assumes "scoreMin \<le> scoreMax"
    and "find_record store name = Some r"
    and "diarizationSegments r = Some gs"
  shows "\<exists>entries kept. turn_level_query sub store name scoreMin scoreMax = Inr entries
           \<and> kept = filter (\<lambda>g. \<exists>c. sub g = Some c \<and> scoreMin \<le> c \<and> c \<le> scoreMax) gs
           \<and> subseq kept gs
           \<and> list_all2 (\<lambda>e g. \<exists>c. sub g = Some c
                 \<and> e = \<lparr>turn_start = seg_start g, turn_end = seg_end g,
                        turn_speaker = speaker g, speakerConfidence = c\<rparr>) entries kept"
  using assms(2,3) turn_windows_kept [of sub scoreMin scoreMax gs]
  by (simp add: turn_level_query_def)

theorem turn_level_query_segments_witness:
  "turn_level_query
     (\<lambda>g. case map_of (confidence g) (speaker g) of Some (BDouble x) \<Rightarrow> Some x | _ \<Rightarrow> None)
     [\<lparr>filename = ''a.wav'', storageReference = ''file-1'', storageKind = ''PyAnnote'',
       speakerCount = 2, jobReference = None, humanScore = None,
       sampleLevelMeanScore = None, sampleLevelConfidences = None,
       diarizationSegments = Some
         [\<lparr>seg_start = 0, seg_end = 2, speaker = ''S0'', confidence = [(''S0'', BDouble 95)]\<rparr>,
          \<lparr>seg_start = 2, seg_end = 3, speaker = ''S1'', confidence = [(''S1'', BDouble 40)]\<rparr>,
          \<lparr>seg_start = 3, seg_end = 7, speaker = ''S0'', confidence = [(''S0'', BDouble 50)]\<rparr>]\<rparr>]
     ''a.wav'' 50 95
   = Inr [\<lparr>turn_start = 0, turn_end = 2, turn_speaker = ''S0'', speakerConfidence = 95\<rparr>,
          \<lparr>turn_start = 3, turn_end = 7, turn_speaker = ''S0'', speakerConfidence = 50\<rparr>]"
proof -
  let ?sub = "\<lambda>g. case map_of (confidence g) (speaker g) of
                     Some (BDouble x) \<Rightarrow> Some x | _ \<Rightarrow> None"
  let ?gs = "[\<lparr>seg_start = 0, seg_end = 2, speaker = ''S0'', confidence = [(''S0'', BDouble 95)]\<rparr>,
          \<lparr>seg_start = 2, seg_end = 3, speaker = ''S1'', confidence = [(''S1'', BDouble 40)]\<rparr>,
          \<lparr>seg_start = 3, seg_end = 7, speaker = ''S0'', confidence = [(''S0'', BDouble 50)]\<rparr>]"
  let ?r = "\<lparr>filename = ''a.wav'', storageReference = ''file-1'', storageKind = ''PyAnnote'',
       speakerCount = 2, jobReference = None, humanScore = None,
       sampleLevelMeanScore = None, sampleLevelConfidences = None,
       diarizationSegments = Some ?gs\<rparr>"
  have bounds: "(50::real) \<le> 95" by simp
  have found: "find_record [?r] ''a.wav'' = Some ?r" by (simp add: find_record_def)
  have present: "diarizationSegments ?r = Some ?gs" by simp
  from turn_level_query_segments [OF bounds found present, of ?sub]
  obtain entries where q: "turn_level_query ?sub [?r] ''a.wav'' 50 95 = Inr entries"
    and l: "list_all2 (\<lambda>e g. \<exists>c. ?sub g = Some c
                 \<and> e = \<lparr>turn_start = seg_start g, turn_end = seg_end g,
                        turn_speaker = speaker g, speakerConfidence = c\<rparr>) entries
              (filter (\<lambda>g. \<exists>c. ?sub g = Some c \<and> 50 \<le> c \<and> c \<le> 95) ?gs)"
    by blast
  from l have "entries =
      [\<lparr>turn_start = 0, turn_end = 2, turn_speaker = ''S0'', speakerConfidence = 95\<rparr>,
       \<lparr>turn_start = 3, turn_end = 7, turn_speaker = ''S0'', speakerConfidence = 50\<rparr>]"
    by (simp add: list_all2_Cons2)
  with q show ?thesis by simp
qed

section \<open>Deleting a record\<close>

subsection \<open>Queries after a deletion\<close>

lemma find_record_deleted: "find_record (delete_record store name) name = None"
  by (simp add: find_record_def delete_record_def find_None_iff)

text \<open>
  Once a record is deleted from the store, its filename is in no answer of the
  mean-score query, and the two window queries no longer find it.
\<close>

lemma deleted_record_not_in_queries:
  "name \<notin> entry_filename ` set (mean_score_query (delete_record store name) h0 h1 s0 s1)"
  "sample_level_query (delete_record store name) name lo hi = Inl NotFound"
  "turn_level_query sub (delete_record store name) name lo hi = Inl NotFound"
proof -
  show "name \<notin> entry_filename ` set (mean_score_query (delete_record store name) h0 h1 s0 s1)"
  proof
    assume "name \<in> entry_filename ` set (mean_score_query (delete_record store name) h0 h1 s0 s1)"
    then obtain e where "e \<in> set (mean_score_query (delete_record store name) h0 h1 s0 s1)"
      and "entry_filename e = name" by auto
    with mean_score_query_filenames [of e "delete_record store name" h0 h1 s0 s1]
    show False by (auto simp: delete_record_def)
  qed
  show "sample_level_query (delete_record store name) name lo hi = Inl NotFound"
    by (simp add: sample_level_query_def find_record_deleted)
  show "turn_level_query sub (delete_record store name) name lo hi = Inl NotFound"
    by (simp add: turn_level_query_def find_record_deleted)
qed

subsection \<open>Cleaning the dropdowns after a deletion\<close>

lemma deleteOptionByValue_other_list:
  "l \<noteq> listId \<Longrightarrow> fst (deleteOptionByValue value_bound page listId valeur) l = page l"
  by (simp add: deleteOptionByValue_def split: option.splits)

lemma deleteOptionByValue_unbound_throws:
  "\<exists>e. snd (deleteOptionByValue False page listId valeur) = Some e"
  by (simp add: deleteOptionByValue_def log_value_def split: option.splits)

lemma cleanData_unbound:
  "cleanData False page valeur = deleteOptionByValue False page ''filenameLists'' valeur"
proof -
  obtain p e where "deleteOptionByValue False page ''filenameLists'' valeur = (p, Some e)"
    using deleteOptionByValue_unbound_throws [of page "''filenameLists''" valeur]
    by (cases "deleteOptionByValue False page ''filenameLists'' valeur") auto
  then show ?thesis by (simp add: cleanData_def listIds_def)
qed

text \<open>
  When the identifier \<open>value\<close> does not resolve, \<open>cleanData\<close> never gets past the first
  dropdown: every other select of the page is left as it is.
\<close>

lemma cleanData_unbound_other_lists:
  "l \<noteq> ''filenameLists'' \<Longrightarrow> fst (cleanData False page valeur) l = page l"
  by (simp add: cleanData_unbound deleteOptionByValue_other_list)

lemma find_option_ge: "find_option i opts valeur = Some j \<Longrightarrow> i \<le> j"
  by (induction opts arbitrary: i) (auto split: if_splits dest: Suc_leD)

lemma find_option_remove1:
  "(case find_option i opts valeur of None \<Rightarrow> opts | Some j \<Rightarrow> remove_at (j - i) opts)
     = remove1 valeur opts"
proof (induction opts arbitrary: i)
  case Nil
  then show ?case by simp
next
  case (Cons v vs)
  show ?case
  proof (cases "v = valeur")
    case True
    then show ?thesis by (simp add: remove_at_def)
  next
    case False
    show ?thesis
    proof (cases "find_option (Suc i) vs valeur")
      case None
      then show ?thesis using False Cons.IH [of "Suc i"] by simp
    next
      case (Some j)
      then have "Suc i \<le> j" by (rule find_option_ge)
      then have "j - i = Suc (j - Suc i)" by simp
      then have "remove_at (j - i) (v # vs) = v # remove_at (j - Suc i) vs"
        by (simp add: remove_at_def)
      then show ?thesis using False Some Cons.IH [of "Suc i"] by simp
    qed
  qed
qed

lemma deleteOptionByValue_bound:
  assumes "page listId = Some opts"
  shows "deleteOptionByValue True page listId valeur
           = (page(listId \<mapsto> remove1 valeur opts), None)"
proof (cases "find_option 0 opts valeur")
  case None
  then have "remove1 valeur opts = opts" using find_option_remove1 [where i = 0 and opts = opts and valeur = valeur] by simp
  then have "page(listId \<mapsto> remove1 valeur opts) = page" using assms by auto
  then show ?thesis using None assms by (simp add: deleteOptionByValue_def log_value_def)
next
  case (Some j)
  then have "remove_at j opts = remove1 valeur opts"
    using find_option_remove1 [where i = 0 and opts = opts and valeur = valeur] by simp
  then show ?thesis using Some assms by (simp add: deleteOptionByValue_def log_value_def)
qed

lemma cleanData_loop_bound:
  assumes "\<forall>l \<in> set ids. page l \<noteq> None" and "distinct ids"
  shows "cleanData_loop True page ids valeur
           = ((\<lambda>l. if l \<in> set ids then map_option (remove1 valeur) (page l) else page l), None)"
  using assms
proof (induction ids arbitrary: page)
  case Nil
  then show ?case by simp
next
  case (Cons listId ids)
  from Cons.prems obtain opts where opts: "page listId = Some opts" by auto
  let ?page' = "page(listId \<mapsto> remove1 valeur opts)"
  have step: "deleteOptionByValue True page listId valeur = (?page', None)"
    using opts by (rule deleteOptionByValue_bound)
  have "\<forall>l \<in> set ids. ?page' l \<noteq> None" using Cons.prems by auto
  moreover have "distinct ids" using Cons.prems by simp
  ultimately have "cleanData_loop True ?page' ids valeur
           = ((\<lambda>l. if l \<in> set ids then map_option (remove1 valeur) (?page' l) else ?page' l), None)"
    by (rule Cons.IH)
  moreover have "(\<lambda>l. if l \<in> set ids then map_option (remove1 valeur) (?page' l) else ?page' l)
       = (\<lambda>l. if l \<in> set (listId # ids) then map_option (remove1 valeur) (page l) else page l)"
    using Cons.prems opts by (auto simp: fun_eq_iff)
  ultimately show ?case using step by simp
qed

text \<open>
  When \<open>value\<close> does resolve and the page has all seven dropdowns, \<open>cleanData\<close> removes
  the first option with the filename from each of them; a dropdown that lists no
  filename twice then no longer has it.
\<close>

lemma cleanData_bound:
  assumes "\<forall>l \<in> set listIds. page l \<noteq> None"
  shows "cleanData True page valeur
           = ((\<lambda>l. if l \<in> set listIds then map_option (remove1 valeur) (page l) else page l), None)"
  unfolding cleanData_def
  by (rule cleanData_loop_bound [OF assms]) (simp add: listIds_def)

lemma cleanData_bound_removes:
  assumes "\<forall>l \<in> set listIds. page l \<noteq> None" and "l \<in> set listIds"
    and "page l = Some opts" and "distinct opts"
  shows "\<exists>opts'. fst (cleanData True page valeur) l = Some opts' \<and> valeur \<notin> set opts'"
  using assms by (simp add: cleanData_bound)

text \<open>
  Claim C4 says that after a deletion that succeeds the handler removes the filename
  from all seven dropdowns. On a page with no global named \<open>value\<close>, where each dropdown
  lists the placeholder and the files \<open>a.wav\<close> and \<open>b.wav\<close>, deleting \<open>a.wav\<close> removes it
  from \<open>filenameLists\<close> only: the log line that follows the removal throws, \<open>cleanData\<close>
  catches the exception, and the six other dropdowns still list the deleted file.
\<close>

theorem deletion_leaves_six_dropdowns:
  "fst (deletionForm_submit False
          (map_of (map (\<lambda>l. (l, [[], ''a.wav'', ''b.wav''])) listIds)) ''a.wav'' True)
       ''filenameLists'' = Some [[], ''b.wav'']
   \<and> map (fst (deletionForm_submit False
                 (map_of (map (\<lambda>l. (l, [[], ''a.wav'', ''b.wav''])) listIds)) ''a.wav'' True))
        [''filenameSVG'', ''filenameDiarisation'', ''filenameListening'', ''filenameDeletion'',
         ''filenameSample'', ''filenameTurn'']
      = replicate 6 (Some [[], ''a.wav'', ''b.wav''])
   \<and> snd (cleanData False (map_of (map (\<lambda>l. (l, [[], ''a.wav'', ''b.wav''])) listIds)) ''a.wav'')
      = Some (ReferenceError ''value'')"
  by (simp add: deletionForm_submit_def cleanData_unbound deleteOptionByValue_def log_value_def
      listIds_def remove_at_def numeral_eq_Suc)

end
